theory Spec2Isabelle
  imports Complex_Main "HOL-Library.Sublist" "HOL-Library.AList"
begin

section \<open>Python errors as values\<close>

text \<open>
  Every exception that \<^verbatim>\<open>load_query_data\<close> and the library calls it makes can raise is
  a value of this type; a computation that may raise returns \<open>error + 'a\<close>, with \<open>Inl\<close>
  for the exception.
\<close>

datatype error =
  ValueError | KeyError | IndexError | TypeError | AttributeError | RuntimeError
  | IOError

fun sbind :: "error + 'a \<Rightarrow> ('a \<Rightarrow> error + 'b) \<Rightarrow> error + 'b" where
  "sbind (Inl e) f = Inl e"
| "sbind (Inr a) f = f a"

section \<open>Tensors\<close>

text \<open>
  A tensor is its shape (\<^verbatim>\<open>Tensor.size()\<close>) and its entries in row-major order, grouped
  into the rows that run along the last axis: a tensor of shape \<open>(2, 3)\<close> has two rows of
  three entries, one of shape \<open>(5,)\<close> has one row of five entries, one of shape \<open>(0,)\<close> has
  one empty row, and a zero-dimensional tensor (shape \<open>()\<close>) has one row of one entry.
  The operations of \<^verbatim>\<open>load_query_data\<close> on tensors all work along the last axis.
\<close>

record 'a tensor =
  shape :: "nat list"
  rows :: "'a list list"

definition width :: "nat list \<Rightarrow> nat" where
  "width s = (if s = [] then 1 else last s)"

definition wf_tensor :: "'a tensor \<Rightarrow> bool" where
  "wf_tensor t \<longleftrightarrow>
     length (rows t) = prod_list (butlast (shape t)) \<and>
     list_all (\<lambda>r. length r = width (shape t)) (rows t)"

text \<open>\<^verbatim>\<open>t.size()[-1]\<close>: indexing the empty \<^verbatim>\<open>torch.Size\<close> raises IndexError.\<close>

definition size_last :: "'a tensor \<Rightarrow> error + int" where
  "size_last t = (if shape t = [] then Inl IndexError else Inr (int (last (shape t))))"

text \<open>
  A Python slice \<^verbatim>\<open>start:\<close> on an axis of length \<open>n\<close>: a negative start counts from
  the end, and the result is clamped to the axis. Note that \<^verbatim>\<open>-0:\<close> is \<^verbatim>\<open>0:\<close>, the whole
  axis.
\<close>

definition slice_start :: "nat \<Rightarrow> int \<Rightarrow> nat" where
  "slice_start n start =
     (if start < 0 then nat (max (int n + start) 0) else min (nat start) n)"

text \<open>\<^verbatim>\<open>t[..., start:]\<close>; a zero-dimensional tensor cannot be sliced.\<close>

definition slice_last :: "'a tensor \<Rightarrow> int \<Rightarrow> error + 'a tensor" where
  "slice_last t start =
     (if shape t = [] then Inl IndexError
      else let n = last (shape t); s = slice_start n start
           in Inr \<lparr>shape = butlast (shape t) @ [n - s], rows = map (drop s) (rows t)\<rparr>)"

text \<open>
  \<^verbatim>\<open>torch.cat([a, b], dim=-1)\<close>. The library's rule: zero-dimensional tensors cannot be
  concatenated; all tensors must have the same shape except in the concatenating
  dimension, or be a one-dimensional empty tensor of size \<open>(0,)\<close>, which is skipped.
\<close>

definition cat_last :: "'a tensor \<Rightarrow> 'a tensor \<Rightarrow> error + 'a tensor" where
  "cat_last a b =
     (if shape a = [] \<or> shape b = [] then Inl RuntimeError
      else if shape a = [0] then Inr b
      else if shape b = [0] then Inr a
      else if length (shape a) \<noteq> length (shape b) \<or> butlast (shape a) \<noteq> butlast (shape b)
        then Inl RuntimeError
      else Inr \<lparr>shape = butlast (shape a) @ [last (shape a) + last (shape b)],
                rows = map2 (@) (rows a) (rows b)\<rparr>)"

section \<open>Weight reconciliation\<close>

text \<open>
  A state dict is an ordered dictionary from parameter name to tensor: an association
  list whose keys are distinct.

  The body of the loop of \<^verbatim>\<open>load_query_data\<close> for one item \<open>(key, load_ten)\<close> of the saved
  state dict, against the fresh model's state dict \<open>new_state_dict\<close>: the value that
  \<^verbatim>\<open>load_state_dict[key]\<close> holds afterwards.
\<close>

type_synonym 'a state_dict = "(string \<times> 'a tensor) list"

definition fix_ten :: "'a state_dict \<Rightarrow> string \<Rightarrow> 'a tensor \<Rightarrow> error + 'a tensor" where
  "fix_ten new_state_dict key load_ten =
     (case map_of new_state_dict key of
        None \<Rightarrow> Inl KeyError
      | Some new_ten \<Rightarrow>
          if shape new_ten = shape load_ten then Inr load_ten
          else
            sbind (size_last new_ten) (\<lambda>n.
            sbind (size_last load_ten) (\<lambda>l.
            let dim_diff = n - l in
            sbind (slice_last new_ten (- dim_diff)) (\<lambda>tail.
            cat_last load_ten tail))))"

text \<open>
  The loop over \<^verbatim>\<open>load_state_dict.items()\<close>. It assigns to existing keys only, so the
  dictionary the loop leaves is the saved one with each value replaced by its fixed
  tensor; the first exception ends the loop.
\<close>

fun fix_state_dict :: "'a state_dict \<Rightarrow> 'a state_dict \<Rightarrow> error + 'a state_dict" where
  "fix_state_dict new_state_dict [] = Inr []"
| "fix_state_dict new_state_dict ((key, load_ten) # items) =
     sbind (fix_ten new_state_dict key load_ten) (\<lambda>fixed_ten.
     sbind (fix_state_dict new_state_dict items) (\<lambda>rest.
     Inr ((key, fixed_ten) # rest)))"

section \<open>The network module\<close>

text \<open>
  The \<^verbatim>\<open>torch.nn.Module\<close> held by a model, as far as \<^verbatim>\<open>load_query_data\<close> touches it:
  the entries of its state dict, each a parameter (with its \<^verbatim>\<open>requires_grad\<close> flag) or a
  buffer; its \<^verbatim>\<open>named_modules()\<close>, each with its \<^verbatim>\<open>training\<close> flag and the settings
  of its layer class; and whether it was moved to the GPU.

  \<^verbatim>\<open>FCLayers.set_online_update_hooks\<close> is not among the sources: an \<open>FCLayers\<close> module
  records the calls made on it, each with its \<^verbatim>\<open>hook_first_layer\<close> argument, in order.
\<close>

datatype 'a slot = Param (ten: "'a tensor") (requires_grad_flag: bool) | Buffer (ten: "'a tensor")

fun set_ten :: "'a tensor \<Rightarrow> 'a slot \<Rightarrow> 'a slot" where
  "set_ten t (Param _ g) = Param t g"
| "set_ten t (Buffer _) = Buffer t"

datatype layer =
  FCLayers (hook_calls: "bool list")
  | Dropout (dropout_p: real)
  | BatchNorm1d (bn_affine: bool) (bn_track_running_stats: bool)
  | OtherLayer

record submodule =
  training :: bool
  layer :: layer

record 'a module =
  slots :: "(string \<times> 'a slot) list"
  named_modules :: "(string \<times> submodule) list"
  on_cuda :: bool

definition state_dict :: "'a module \<Rightarrow> 'a state_dict" where
  "state_dict m = map (\<lambda>(key, s). (key, ten s)) (slots m)"

text \<open>
  \<^verbatim>\<open>Module.load_state_dict(sd)\<close> with the default \<^verbatim>\<open>strict=True\<close>: a key of the module
  missing from \<open>sd\<close>, a key of \<open>sd\<close> the module does not have, or a tensor of \<open>sd\<close> whose
  shape differs from the module's raises RuntimeError; otherwise every value is copied
  into the module.
\<close>

definition load_state_dict :: "'a module \<Rightarrow> 'a state_dict \<Rightarrow> error + 'a module" where
  "load_state_dict m sd =
     (let own = state_dict m;
          missing_keys = filter (\<lambda>key. map_of sd key = None) (map fst own);
          unexpected_keys = filter (\<lambda>key. map_of own key = None) (map fst sd);
          size_mismatch = filter (\<lambda>(key, t).
            case map_of sd key of None \<Rightarrow> False | Some t' \<Rightarrow> shape t' \<noteq> shape t) own
      in if missing_keys = [] \<and> unexpected_keys = [] \<and> size_mismatch = []
         then Inr (m\<lparr>slots := map (\<lambda>(key, s).
                (key, case map_of sd key of None \<Rightarrow> s | Some t \<Rightarrow> set_ten t s)) (slots m)\<rparr>)
         else Inl RuntimeError)"

text \<open>\<^verbatim>\<open>Module.eval()\<close> clears the training flag of the module and all its submodules.\<close>

definition eval_mode :: "'a module \<Rightarrow> 'a module" where
  "eval_mode m = m\<lparr>named_modules := map (\<lambda>(key, sm). (key, sm\<lparr>training := False\<rparr>)) (named_modules m)\<rparr>"

definition cuda :: "'a module \<Rightarrow> 'a module" where
  "cuda m = m\<lparr>on_cuda := True\<rparr>"

section \<open>Freezing parts of the network\<close>

text \<open>Python's \<^verbatim>\<open>p in key\<close> on strings, and \<^verbatim>\<open>key.split(".")[0]\<close>.\<close>

fun str_in :: "string \<Rightarrow> string \<Rightarrow> bool" where
  "str_in p [] = (p = [])"
| "str_in p (c # cs) = (prefix p (c # cs) \<or> str_in p cs)"

definition split_first :: "string \<Rightarrow> string" where
  "split_first key = takeWhile (\<lambda>c. c \<noteq> CHR ''.'') key"

definition mod_no_grad :: "string list" where
  "mod_no_grad = [''encoder_z2_z1'', ''decoder_z1_z2'']"

definition mod_no_hooks_yes_grad :: "string list" where
  "mod_no_hooks_yes_grad = [''l_encoder'']"

definition parameters_yes_grad :: "string list" where
  "parameters_yes_grad = [''background_pro_alpha'', ''background_pro_log_beta'']"

definition no_hook_cond :: "bool \<Rightarrow> string \<Rightarrow> bool" where
  "no_hook_cond freeze_expression key \<longleftrightarrow> (\<not> freeze_expression) \<and> str_in ''encoder'' key"

definition requires_grad :: "string \<Rightarrow> bool" where
  "requires_grad key =
     (let mod_name = split_first key;
          one = (str_in ''fc_layers'' key \<and> str_in ''.0.'' key \<and> mod_name \<notin> set mod_no_grad);
          two = (mod_name \<in> set mod_no_hooks_yes_grad);
          three = (sum_list (map (\<lambda>p. if str_in p key then 1 else 0) parameters_yes_grad) > (0::nat))
      in if one \<or> two \<or> three then True else False)"

text \<open>The body of the loop over \<^verbatim>\<open>model.named_modules()\<close>.\<close>

definition update_module :: "bool \<Rightarrow> bool \<Rightarrow> bool \<Rightarrow> string \<Rightarrow> submodule \<Rightarrow> submodule" where
  "update_module freeze_batchnorm freeze_dropout freeze_expression key sm =
     (if split_first key \<in> set mod_no_hooks_yes_grad then sm
      else sm\<lparr>layer :=
        (case layer sm of
           FCLayers calls \<Rightarrow>
             (let hook_first_layer = (if no_hook_cond freeze_expression key then False else True)
              in FCLayers (calls @ [hook_first_layer]))
         | Dropout r \<Rightarrow> if freeze_dropout then Dropout 0 else Dropout r
         | BatchNorm1d a t \<Rightarrow> if freeze_batchnorm then BatchNorm1d False False else BatchNorm1d a t
         | OtherLayer \<Rightarrow> OtherLayer)\<rparr>)"

text \<open>The body of the loop over \<^verbatim>\<open>model.named_parameters()\<close>; buffers are not parameters.\<close>

fun update_slot :: "string \<Rightarrow> 'a slot \<Rightarrow> 'a slot" where
  "update_slot key (Param t g) = (if requires_grad key then Param t True else Param t False)"
| "update_slot key (Buffer t) = Buffer t"

definition set_params_online_update :: "'a module \<Rightarrow> bool \<Rightarrow> bool \<Rightarrow> bool \<Rightarrow> 'a module" where
  "set_params_online_update model freeze_batchnorm freeze_dropout freeze_expression =
     model\<lparr>named_modules :=
              map (\<lambda>(key, sm). (key, update_module freeze_batchnorm freeze_dropout freeze_expression key sm))
                (named_modules model),
           slots := map (\<lambda>(key, s). (key, update_slot key s)) (slots model)\<rparr>"

section \<open>Python values, the model object and the dataset\<close>

text \<open>
  A setup descriptor maps each logical field name to its source location and its
  ordered list of observed categories.
\<close>

type_synonym descriptor = "(string \<times> string \<times> string list) list"

text \<open>
  The values that \<^verbatim>\<open>attr.pkl\<close> and a model's attributes hold: a boolean, a dictionary
  with string keys, a setup descriptor, a network module, or any other object.
\<close>

datatype ('a, 'x) pyval =
  VBool bool
  | VDict "(string \<times> ('a, 'x) pyval) list"
  | VSetup descriptor
  | VModule "'a module"
  | VOther 'x

text \<open>
  An \<^verbatim>\<open>AnnData\<close>: the observed values of each \<^verbatim>\<open>obs\<close> column, in cell order, and the
  entry \<^verbatim>\<open>uns["_scvi"]\<close> when it is set.
\<close>

record ('a, 'x) adata =
  obs :: "string \<Rightarrow> string list"
  uns_scvi :: "('a, 'x) pyval option"

text \<open>A Python object is its attribute dictionary.\<close>

type_synonym ('a, 'x) pyobj = "string \<Rightarrow> ('a, 'x) pyval option"

definition getitem :: "(string \<times> 'v) list \<Rightarrow> string \<Rightarrow> error + 'v" where
  "getitem d key = (case map_of d key of None \<Rightarrow> Inl KeyError | Some v \<Rightarrow> Inr v)"

definition is_dict :: "('a, 'x) pyval \<Rightarrow> bool" where
  "is_dict v = (case v of VDict _ \<Rightarrow> True | _ \<Rightarrow> False)"

definition dict_items :: "('a, 'x) pyval \<Rightarrow> error + (string \<times> ('a, 'x) pyval) list" where
  "dict_items v = (case v of VDict d \<Rightarrow> Inr d | _ \<Rightarrow> Inl AttributeError)"

text \<open>\<^verbatim>\<open>model.model\<close>, used as a network module.\<close>

definition get_module :: "('a, 'x) pyobj \<Rightarrow> error + 'a module" where
  "get_module model =
     (case model ''model'' of Some (VModule m) \<Rightarrow> Inr m | _ \<Rightarrow> Inl AttributeError)"

text \<open>
  The two dictionary comprehensions over \<^verbatim>\<open>init_params.items()\<close>, and the one that
  expands the nested dictionaries: a key met again keeps its place and takes the later
  value.
\<close>

definition non_kwargs_of :: "(string \<times> ('a, 'x) pyval) list \<Rightarrow> (string \<times> ('a, 'x) pyval) list" where
  "non_kwargs_of init_params = filter (\<lambda>(k, v). \<not> is_dict v) init_params"

definition kwargs_of :: "(string \<times> ('a, 'x) pyval) list \<Rightarrow> (string \<times> ('a, 'x) pyval) list" where
  "kwargs_of init_params =
     (let kwargs = filter (\<lambda>(k, v). is_dict v) init_params
      in foldl (\<lambda>acc (k, v). AList.update k v acc) []
           (concat (map (\<lambda>(i, j). case j of VDict d \<Rightarrow> d | _ \<Rightarrow> []) kwargs)))"

text \<open>
  \<^verbatim>\<open>cls(adata, **non_kwargs, **kwargs)\<close>: a keyword given twice is a TypeError; the
  constructor \<open>cls\<close> itself is a parameter.
\<close>

definition call_cls ::
  "(('a, 'x) adata \<Rightarrow> (string \<times> ('a, 'x) pyval) list \<Rightarrow> error + ('a, 'x) pyobj) \<Rightarrow>
   ('a, 'x) adata \<Rightarrow> (string \<times> ('a, 'x) pyval) list \<Rightarrow> (string \<times> ('a, 'x) pyval) list \<Rightarrow>
   error + ('a, 'x) pyobj" where
  "call_cls cls adata non_kwargs kwargs =
     (if list_ex (\<lambda>k. k \<in> set (map fst kwargs)) (map fst non_kwargs) then Inl TypeError
      else cls adata (non_kwargs @ kwargs))"

section \<open>Loading a reference model onto query data\<close>

text \<open>
  What \<^verbatim>\<open>load_query_data\<close> reads from outside: the unpickled \<^verbatim>\<open>attr.pkl\<close> of the
  directory (or the error of opening it), what \<^verbatim>\<open>torch.load\<close> of \<^verbatim>\<open>model_params.pt\<close>
  returns for a given \<^verbatim>\<open>map_location\<close>, and \<^verbatim>\<open>torch.cuda.is_available()\<close>.
\<close>

datatype device = CPU

record ('a, 'x) env =
  attr_pkl :: "error + (string \<times> ('a, 'x) pyval) list"
  model_params_pt :: "device option \<Rightarrow> error + 'a state_dict"
  cuda_is_available :: bool

text \<open>The effects of a run, in order.\<close>

datatype event = PickleLoad | TransferSetup | Construct | ModuleCuda | TorchLoad "device option"

definition andthen ::
  "event list \<times> (error + 'r) \<Rightarrow> ('r \<Rightarrow> event list \<times> (error + 's)) \<Rightarrow> event list \<times> (error + 's)" where
  "andthen m f =
     (case snd m of
        Inl e \<Rightarrow> (fst m, Inl e)
      | Inr r \<Rightarrow> (fst m @ fst (f r), snd (f r)))"

text \<open>
  The part of \<^verbatim>\<open>load_query_data\<close> under its comment \<^verbatim>\<open># model tweaking\<close>, after
  \<^verbatim>\<open>torch.load\<close> has returned the saved state dict: the state dict of the fresh network
  is read, the saved tensors are reconciled with it and loaded, the network is put in
  evaluation mode, the freeze policy is applied, and the model is marked untrained.
\<close>

definition model_tweaking ::
  "('a, 'x) pyobj \<Rightarrow> 'a state_dict \<Rightarrow> bool \<Rightarrow> bool \<Rightarrow> bool \<Rightarrow> error + ('a, 'x) pyobj" where
  "model_tweaking model load_sd freeze_dropout freeze_batchnorm freeze_expression =
     sbind (get_module model) (\<lambda>net.
     let new_state_dict = state_dict net in
     sbind (fix_state_dict new_state_dict load_sd) (\<lambda>load_sd.
     sbind (load_state_dict net load_sd) (\<lambda>net.
     let net = eval_mode net;
         net = set_params_online_update net freeze_batchnorm freeze_dropout freeze_expression;
         model = model(''model'' \<mapsto> VModule net);
         model = model(''is_trained_'' \<mapsto> VBool False)
     in Inr model)))"

text \<open>
  \<^verbatim>\<open>ArchesMixin.load_query_data\<close>, statement by statement. The class \<open>cls\<close> and
  \<^verbatim>\<open>transfer_anndata_setup\<close> (called with \<^verbatim>\<open>extend_categories=True\<close>; it updates the
  dataset in place) are parameters. The result is the log of effects and the returned
  model or the exception raised.
\<close>

definition load_query_data ::
  "(('a, 'x) adata \<Rightarrow> (string \<times> ('a, 'x) pyval) list \<Rightarrow> error + ('a, 'x) pyobj) \<Rightarrow>
   (('a, 'x) pyval \<Rightarrow> ('a, 'x) adata \<Rightarrow> error + ('a, 'x) adata) \<Rightarrow>
   ('a, 'x) env \<Rightarrow> ('a, 'x) adata \<Rightarrow> bool \<Rightarrow> bool \<Rightarrow> bool \<Rightarrow> bool \<Rightarrow>
   event list \<times> (error + ('a, 'x) pyobj)" where
  "load_query_data cls transfer_setup env adata use_cuda
       freeze_dropout freeze_batchnorm freeze_expression =
     andthen ([PickleLoad], attr_pkl env) (\<lambda>attr_dict.
     andthen ([], getitem attr_dict ''scvi_setup_dict_'') (\<lambda>setup_dict.
     andthen ([TransferSetup], transfer_setup setup_dict adata) (\<lambda>adata.
     andthen ([], case uns_scvi adata of None \<Rightarrow> Inl KeyError | Some s \<Rightarrow> Inr s) (\<lambda>uns.
     let attr_dict = AList.update ''scvi_setup_dict_'' uns attr_dict in
     if ''init_params_'' \<notin> set (map fst attr_dict) then ([], Inl ValueError)
     else
     andthen ([], getitem attr_dict ''init_params_'') (\<lambda>init_params.
     let attr_dict = AList.delete ''init_params_'' attr_dict in
     andthen ([], dict_items init_params) (\<lambda>init_params.
     let non_kwargs = non_kwargs_of init_params;
         kwargs = kwargs_of init_params in
     andthen ([Construct], call_cls cls adata non_kwargs kwargs) (\<lambda>model.
     let model = foldl (\<lambda>obj (attr, val). obj(attr \<mapsto> val)) model attr_dict;
         use_cuda = (use_cuda \<and> cuda_is_available env);
         model = model(''use_cuda'' \<mapsto> VBool use_cuda) in
     andthen (if use_cuda
              then andthen ([], get_module model) (\<lambda>net.
                     ([ModuleCuda], Inr (model(''model'' \<mapsto> VModule (cuda net)))))
              else ([], Inr model)) (\<lambda>model.
     let map_location = (if \<not> use_cuda then Some CPU else None) in
     andthen ([TorchLoad map_location], model_params_pt env map_location) (\<lambda>load_sd.
     ([], model_tweaking model load_sd freeze_dropout freeze_batchnorm freeze_expression))))))))))"

section \<open>Vocabulary extension\<close>

text \<open>
  Modelled from the spec: \<^verbatim>\<open>transfer_anndata_setup\<close> (module \<^verbatim>\<open>scvi.data._anndata\<close>) is
  not among the sources. The spec: extending a descriptor is a set-union of the new
  dataset's observed categories into the existing ordered category list, preserving the
  original ordering and appending unseen categories at the end. The model scans the
  observed values of a field in cell order and appends each value that the list does not
  hold yet.
\<close>

fun extend_categories :: "string list \<Rightarrow> string list \<Rightarrow> string list" where
  "extend_categories cats [] = cats"
| "extend_categories cats (v # vs) =
     extend_categories (if v \<in> set cats then cats else cats @ [v]) vs"

definition extend_setup :: "descriptor \<Rightarrow> (string \<Rightarrow> string list) \<Rightarrow> descriptor" where
  "extend_setup sd observed =
     map (\<lambda>(field, loc, cats). (field, loc, extend_categories cats (observed loc))) sd"

text \<open>
  Modelled from the spec: the call \<^verbatim>\<open>transfer_anndata_setup(setup_dict, adata,
  extend_categories=True)\<close> leaves the extended descriptor in \<^verbatim>\<open>adata.uns["_scvi"]\<close>.
\<close>

definition transfer_anndata_setup ::
  "('a, 'x) pyval \<Rightarrow> ('a, 'x) adata \<Rightarrow> error + ('a, 'x) adata" where
  "transfer_anndata_setup setup_dict adata =
     (case setup_dict of
        VSetup sd \<Rightarrow> Inr (adata\<lparr>uns_scvi := Some (VSetup (extend_setup sd (obs adata)))\<rparr>)
      | _ \<Rightarrow> Inl TypeError)"

text \<open>The distinct values of a list in the order in which they are first seen.\<close>

fun first_seen :: "'a list \<Rightarrow> 'a list" where
  "first_seen [] = []"
| "first_seen (x # xs) = x # first_seen (removeAll x xs)"

section \<open>Checking for count data\<close>

text \<open>
  A NumPy array of any number of dimensions, and its entries: a finite number, or one
  of the non-finite floats.
\<close>

datatype 'a ndarray = Scalar 'a | Array "'a ndarray list"

datatype entry = Num real | NaN | PosInf | NegInf

fun flat :: "'a ndarray \<Rightarrow> 'a list" where
  "flat (Scalar x) = [x]"
| "flat (Array xs) = concat (map flat xs)"

text \<open>\<^verbatim>\<open>data[:10]\<close>: the first ten items along the first axis; a 0-d array cannot be sliced.\<close>

fun slice10 :: "'a ndarray \<Rightarrow> error + 'a ndarray" where
  "slice10 (Scalar x) = Inl IndexError"
| "slice10 (Array xs) = Inr (Array (take 10 xs))"

text \<open>
  \<^verbatim>\<open>d < 0\<close> and \<^verbatim>\<open>d % 1 != 0\<close> on a number: the remainder of a finite \<open>d\<close> is
  \<open>d - floor d\<close>; of an infinity it is NaN; and NaN compares unequal to everything.
\<close>

fun lt_zero :: "entry \<Rightarrow> bool" where
  "lt_zero (Num x) = (x < 0)"
| "lt_zero NaN = False"
| "lt_zero PosInf = False"
| "lt_zero NegInf = True"

fun mod_one :: "entry \<Rightarrow> entry" where
  "mod_one (Num x) = Num (x - of_int \<lfloor>x\<rfloor>)"
| "mod_one NaN = NaN"
| "mod_one PosInf = NaN"
| "mod_one NegInf = NaN"

fun ne_zero :: "entry \<Rightarrow> bool" where
  "ne_zero (Num x) = (x \<noteq> 0)"
| "ne_zero NaN = True"
| "ne_zero PosInf = True"
| "ne_zero NegInf = True"

text \<open>\<^verbatim>\<open>_check_is_counts\<close>: the loop over \<^verbatim>\<open>data.flat\<close>, returning at the first bad entry.\<close>

fun check_is_counts_flat :: "entry list \<Rightarrow> bool" where
  "check_is_counts_flat [] = True"
| "check_is_counts_flat (d # ds) =
     (if lt_zero d \<or> ne_zero (mod_one d) then False else check_is_counts_flat ds)"

definition check_is_counts :: "entry ndarray \<Rightarrow> bool" where
  "check_is_counts data = check_is_counts_flat (flat data)"

text \<open>
  The inputs of \<^verbatim>\<open>_check_nonnegative_integers\<close>: a NumPy array, a SciPy sparse matrix
  (given by its \<^verbatim>\<open>.data\<close> array of stored values), a pandas DataFrame (given by its rows,
  which \<^verbatim>\<open>to_numpy()\<close> turns into a two-dimensional array), or anything else.
\<close>

datatype count_input =
  NDArray "entry ndarray"
  | SpMatrix "entry ndarray"
  | DataFrame "entry list list"
  | OtherData

definition to_numpy :: "entry list list \<Rightarrow> entry ndarray" where
  "to_numpy df = Array (map (\<lambda>r. Array (map Scalar r)) df)"

definition check_nonnegative_integers :: "count_input \<Rightarrow> error + bool" where
  "check_nonnegative_integers data =
     sbind (case data of
              NDArray a \<Rightarrow> Inr a
            | SpMatrix d \<Rightarrow> Inr d
            | DataFrame df \<Rightarrow> Inr (to_numpy df)
            | OtherData \<Rightarrow> Inl TypeError) (\<lambda>data.
     sbind (slice10 data) (\<lambda>check.
     Inr (check_is_counts check)))"

text \<open>What counts as count data: a finite, nonnegative whole number.\<close>

fun nonneg_whole :: "entry \<Rightarrow> bool" where
  "nonneg_whole (Num x) = (0 \<le> x \<and> of_int \<lfloor>x\<rfloor> = x)"
| "nonneg_whole NaN = False"
| "nonneg_whole PosInf = False"
| "nonneg_whole NegInf = False"

definition is_scalar :: "'a ndarray \<Rightarrow> bool" where
  "is_scalar a = (case a of Scalar _ \<Rightarrow> True | Array _ \<Rightarrow> False)"

section \<open>Views used in the statements\<close>

text \<open>
  \<^verbatim>\<open>named_parameters()\<close> of a module, and the \<^verbatim>\<open>requires_grad\<close> decision that each
  parameter name carries.
\<close>

definition is_param :: "'a slot \<Rightarrow> bool" where
  "is_param s = (case s of Param _ _ \<Rightarrow> True | Buffer _ \<Rightarrow> False)"

definition named_parameters :: "'a module \<Rightarrow> (string \<times> 'a slot) list" where
  "named_parameters m = filter (\<lambda>(key, s). is_param s) (slots m)"

definition grad_decisions :: "'a module \<Rightarrow> (string \<times> bool) list" where
  "grad_decisions m = map (\<lambda>(key, s). (key, requires_grad_flag s)) (named_parameters m)"

text \<open>
  A module without the record of the hook calls made on its \<open>FCLayers\<close>: what is left
  are the parameters, the buffers, the training flags and the dropout and
  batch-normalization settings.
\<close>

definition strip_hooks :: "submodule \<Rightarrow> submodule" where
  "strip_hooks sm = (case layer sm of FCLayers _ \<Rightarrow> sm\<lparr>layer := FCLayers []\<rparr> | _ \<Rightarrow> sm)"

definition forget_hooks :: "'a module \<Rightarrow> 'a module" where
  "forget_hooks m = m\<lparr>named_modules := map (\<lambda>(key, sm). (key, strip_hooks sm)) (named_modules m)\<rparr>"

text \<open>
  The one shape change that the reconciliation is written for: the same number of
  dimensions, the same leading dimensions, and a last dimension that grew.
\<close>

definition trailing_growth :: "nat list \<Rightarrow> nat list \<Rightarrow> bool" where
  "trailing_growth old new \<longleftrightarrow>
     old \<noteq> [] \<and> length new = length old \<and> butlast new = butlast old \<and> last old < last new"

section \<open>Example inputs\<close>

text \<open>
  Concrete inputs on which the theorems below are run: a saved state dict, fresh
  networks, a descriptor file, a model class, a dataset and an environment without a
  GPU, and the model that loading them returns.
\<close>

definition ex_saved_sd :: "int state_dict" where
  "ex_saved_sd = [(''w'', \<lparr>shape = [2, 2], rows = [[1, 2], [3, 4]]\<rparr>),
                  (''b'', \<lparr>shape = [2], rows = [[5, 6]]\<rparr>)]"

definition ex_fresh_net :: "int module" where
  "ex_fresh_net =
     \<lparr>slots = [(''w'', Param \<lparr>shape = [2, 3], rows = [[10, 20, 30], [40, 50, 60]]\<rparr> False),
               (''b'', Buffer \<lparr>shape = [2], rows = [[7, 8]]\<rparr>)],
      named_modules = [([], \<lparr>training = True, layer = OtherLayer\<rparr>)],
      on_cuda = False\<rparr>"

definition ex_model :: "(int, unit) pyobj" where
  "ex_model = [''model'' \<mapsto> VModule ex_fresh_net, ''is_trained_'' \<mapsto> VBool True]"

definition ex_model_of :: "int module \<Rightarrow> (int, unit) pyobj" where
  "ex_model_of net = [''model'' \<mapsto> VModule net]"

definition ex_saved :: "int state_dict" where
  "ex_saved = [(''w'', \<lparr>shape = [2, 2], rows = [[1, 2], [3, 4]]\<rparr>),
               (''b'', \<lparr>shape = [2], rows = [[5, 6]]\<rparr>)]"

definition ex_ref_net :: "int module" where
  "ex_ref_net =
     \<lparr>slots = [(''w'', Param \<lparr>shape = [2, 2], rows = [[0, 0], [0, 0]]\<rparr> True),
               (''b'', Buffer \<lparr>shape = [2], rows = [[0, 0]]\<rparr>)],
      named_modules = [([], \<lparr>training = True, layer = OtherLayer\<rparr>),
                       (''drop'', \<lparr>training = True, layer = Dropout (1 / 10)\<rparr>)],
      on_cuda = False\<rparr>"

definition ex_attr_dict :: "(string \<times> (int, nat) pyval) list" where
  "ex_attr_dict =
     [(''scvi_setup_dict_'', VSetup [(''batch_indices'', ''batch'', [''b0'', ''b1''])]),
      (''init_params_'', VDict [(''n_latent'', VOther 10),
                               (''kwargs'', VDict [(''dropout_rate'', VOther 1)])]),
      (''is_trained_'', VBool True)]"

definition ex_cls :: "(int, nat) adata \<Rightarrow> (string \<times> (int, nat) pyval) list \<Rightarrow> error + (int, nat) pyobj" where
  "ex_cls adata kwargs = Inr [''model'' \<mapsto> VModule ex_ref_net]"

definition ex_adata :: "(int, nat) adata" where
  "ex_adata = \<lparr>obs = (\<lambda>col. if col = ''batch'' then [''b1'', ''b0'', ''b1''] else []),
               uns_scvi = None\<rparr>"

definition ex_env :: "(int, nat) env" where
  "ex_env = \<lparr>attr_pkl = Inr ex_attr_dict, model_params_pt = (\<lambda>ml. Inr ex_saved),
             cuda_is_available = False\<rparr>"

definition ex_result :: "(int, nat) pyobj" where
  "ex_result =
     [''scvi_setup_dict_'' \<mapsto> VSetup [(''batch_indices'', ''batch'', [''b0'', ''b1''])],
      ''use_cuda'' \<mapsto> VBool False,
      ''model'' \<mapsto> VModule
         \<lparr>slots = [(''w'', Param \<lparr>shape = [2, 2], rows = [[1, 2], [3, 4]]\<rparr> False),
                   (''b'', Buffer \<lparr>shape = [2], rows = [[5, 6]]\<rparr>)],
          named_modules = [([], \<lparr>training = False, layer = OtherLayer\<rparr>),
                           (''drop'', \<lparr>training = False, layer = Dropout (1 / 10)\<rparr>)],
          on_cuda = False\<rparr>,
      ''is_trained_'' \<mapsto> VBool False]"

section \<open>Properties of the freeze policy\<close>

lemma is_param_update_slot: "is_param (update_slot key s) = is_param s"
  by (cases s) (simp_all add: is_param_def)

lemma flag_update_slot: "is_param s \<Longrightarrow> requires_grad_flag (update_slot key s) = requires_grad key"
  by (cases s) (simp_all add: is_param_def)

lemma grad_decisions_update:
  "map (\<lambda>(key, s). (key, requires_grad_flag s))
     (filter (\<lambda>(key, s). is_param s) (map (\<lambda>(key, s). (key, update_slot key s)) xs)) =
   map (\<lambda>(key, s). (key, requires_grad key)) (filter (\<lambda>(key, s). is_param s) xs)"
  by (induction xs) (auto simp: is_param_update_slot flag_update_slot)

lemma decisions_by_name:
  "map (\<lambda>(key, s). (key, requires_grad key)) xs = map (\<lambda>key. (key, requires_grad key)) (map fst xs)"
  by (induction xs) auto

lemma requires_grad_examples:
  "requires_grad ''decoder.fc_layers.0.bias''"
  "requires_grad ''l_encoder.mean.weight''"
  "requires_grad ''background_pro_alpha''"
  "\<not> requires_grad ''encoder_z2_z1.fc_layers.0.bias''"
  "\<not> requires_grad ''px_r''"
  by (simp_all add: requires_grad_def split_first_def mod_no_grad_def mod_no_hooks_yes_grad_def
      parameters_yes_grad_def)

text \<open>
  C6. After \<^verbatim>\<open>_set_params_online_update\<close>, every parameter name of the model carries
  exactly one \<^verbatim>\<open>requires_grad\<close> decision, the value of the function \<open>requires_grad\<close> at
  that name, whatever the flag was before; so two runs on models with the same parameter
  names, under the same freeze_dropout, freeze_batchnorm and freeze_expression, reach
  the same decision for every parameter.
\<close>

theorem freeze_decision_by_name:
  "grad_decisions (set_params_online_update m freeze_batchnorm freeze_dropout freeze_expression) =
     map (\<lambda>key. (key, requires_grad key)) (map fst (named_parameters m)) \<and>
   (map fst (named_parameters m) = map fst (named_parameters m') \<longrightarrow>
      grad_decisions (set_params_online_update m freeze_batchnorm freeze_dropout freeze_expression) =
      grad_decisions (set_params_online_update m' freeze_batchnorm freeze_dropout freeze_expression))"
  by (simp add: grad_decisions_def named_parameters_def set_params_online_update_def
      grad_decisions_update decisions_by_name)

theorem freeze_decision_by_name_witness:
  "map fst (named_parameters
      \<lparr>slots = [(''decoder.fc_layers.0.bias'', Param \<lparr>shape = [1], rows = [[1::int]]\<rparr> False),
                (''n_tracked'', Buffer \<lparr>shape = [], rows = [[7]]\<rparr>),
                (''px_r'', Param \<lparr>shape = [1], rows = [[2]]\<rparr> True)],
       named_modules = [], on_cuda = False\<rparr>) =
   map fst (named_parameters
      \<lparr>slots = [(''decoder.fc_layers.0.bias'', Param \<lparr>shape = [1], rows = [[5::int]]\<rparr> True),
                (''px_r'', Param \<lparr>shape = [1], rows = [[6]]\<rparr> False)],
       named_modules = [], on_cuda = False\<rparr>) \<and>
   grad_decisions (set_params_online_update
      \<lparr>slots = [(''decoder.fc_layers.0.bias'', Param \<lparr>shape = [1], rows = [[1::int]]\<rparr> False),
                (''n_tracked'', Buffer \<lparr>shape = [], rows = [[7]]\<rparr>),
                (''px_r'', Param \<lparr>shape = [1], rows = [[2]]\<rparr> True)],
       named_modules = [], on_cuda = False\<rparr> True False True) =
     [(''decoder.fc_layers.0.bias'', True), (''px_r'', False)] \<and>
   grad_decisions (set_params_online_update
      \<lparr>slots = [(''decoder.fc_layers.0.bias'', Param \<lparr>shape = [1], rows = [[5::int]]\<rparr> True),
                (''px_r'', Param \<lparr>shape = [1], rows = [[6]]\<rparr> False)],
       named_modules = [], on_cuda = False\<rparr> True False True) =
     [(''decoder.fc_layers.0.bias'', True), (''px_r'', False)]"
  using freeze_decision_by_name
    [where m = "\<lparr>slots = [(''decoder.fc_layers.0.bias'', Param \<lparr>shape = [1], rows = [[1::int]]\<rparr> False),
                (''n_tracked'', Buffer \<lparr>shape = [], rows = [[7]]\<rparr>),
                (''px_r'', Param \<lparr>shape = [1], rows = [[2]]\<rparr> True)],
       named_modules = [], on_cuda = False\<rparr>"
      and m' = "\<lparr>slots = [(''decoder.fc_layers.0.bias'', Param \<lparr>shape = [1], rows = [[5::int]]\<rparr> True),
                (''px_r'', Param \<lparr>shape = [1], rows = [[6]]\<rparr> False)],
       named_modules = [], on_cuda = False\<rparr>"
      and freeze_batchnorm = True and freeze_dropout = False and freeze_expression = True]
  by (simp add: named_parameters_def is_param_def requires_grad_examples grad_decisions_def
      set_params_online_update_def)

lemma update_slot_idem: "update_slot key (update_slot key s) = update_slot key s"
  by (cases s) simp_all

lemma strip_update_update:
  "strip_hooks (update_module fb fd fe key (update_module fb fd fe key sm)) =
   strip_hooks (update_module fb fd fe key sm)"
  by (cases "layer sm") (auto simp: strip_hooks_def update_module_def)

lemma update_module_toggles:
  "split_first key \<notin> set mod_no_hooks_yes_grad \<Longrightarrow>
   (fd \<longrightarrow> (\<forall>r. layer (update_module fb fd fe key sm) = Dropout r \<longrightarrow> r = 0)) \<and>
   (fb \<longrightarrow> (\<forall>a t. layer (update_module fb fd fe key sm) = BatchNorm1d a t \<longrightarrow> \<not> a \<and> \<not> t))"
  by (cases "layer sm") (auto simp: update_module_def)

lemma named_modules_update:
  "named_modules (set_params_online_update m fb fd fe) =
   map (\<lambda>(key, sm). (key, update_module fb fd fe key sm)) (named_modules m)"
  by (simp add: set_params_online_update_def)

lemma slots_update:
  "slots (set_params_online_update m fb fd fe) = map (\<lambda>(key, s). (key, update_slot key s)) (slots m)"
  by (simp add: set_params_online_update_def)

text \<open>
  C7. Applying \<^verbatim>\<open>_set_params_online_update\<close> a second time with the same flags changes
  no parameter, buffer, \<^verbatim>\<open>requires_grad\<close> flag, dropout rate or batch-normalization
  setting (only the record of hook calls on \<open>FCLayers\<close> grows, which \<open>forget_hooks\<close> leaves
  out); and after the second run, in every module outside the protected \<open>l_encoder\<close>, a
  dropout rate is still zero under freeze_dropout, and affine and the tracking of running
  statistics are still off under freeze_batchnorm.
\<close>

theorem online_update_toggles_idempotent:
  "forget_hooks (set_params_online_update
       (set_params_online_update m freeze_batchnorm freeze_dropout freeze_expression)
       freeze_batchnorm freeze_dropout freeze_expression) =
   forget_hooks (set_params_online_update m freeze_batchnorm freeze_dropout freeze_expression) \<and>
   (\<forall>(key, sm) \<in> set (named_modules (set_params_online_update
         (set_params_online_update m freeze_batchnorm freeze_dropout freeze_expression)
         freeze_batchnorm freeze_dropout freeze_expression)).
      split_first key \<notin> set mod_no_hooks_yes_grad \<longrightarrow>
        (freeze_dropout \<longrightarrow> (\<forall>r. layer sm = Dropout r \<longrightarrow> r = 0)) \<and>
        (freeze_batchnorm \<longrightarrow> (\<forall>a t. layer sm = BatchNorm1d a t \<longrightarrow> \<not> a \<and> \<not> t)))"
proof
  let ?f = "\<lambda>m. set_params_online_update m freeze_batchnorm freeze_dropout freeze_expression"
  have nm: "map (\<lambda>(key, sm). (key, strip_hooks sm)) (named_modules (?f (?f m))) =
            map (\<lambda>(key, sm). (key, strip_hooks sm)) (named_modules (?f m))"
    by (simp add: named_modules_update case_prod_unfold strip_update_update)
  have sl: "slots (?f (?f m)) = slots (?f m)"
    by (simp add: slots_update case_prod_unfold update_slot_idem)
  show "forget_hooks (?f (?f m)) = forget_hooks (?f m)"
    using nm sl by (simp add: forget_hooks_def set_params_online_update_def)
next
  let ?f = "\<lambda>m. set_params_online_update m freeze_batchnorm freeze_dropout freeze_expression"
  show "\<forall>(key, sm) \<in> set (named_modules (?f (?f m))).
      split_first key \<notin> set mod_no_hooks_yes_grad \<longrightarrow>
        (freeze_dropout \<longrightarrow> (\<forall>r. layer sm = Dropout r \<longrightarrow> r = 0)) \<and>
        (freeze_batchnorm \<longrightarrow> (\<forall>a t. layer sm = BatchNorm1d a t \<longrightarrow> \<not> a \<and> \<not> t))"
  proof (clarify)
    fix key sm
    assume mem: "(key, sm) \<in> set (named_modules (?f (?f m)))"
      and np: "split_first key \<notin> set mod_no_hooks_yes_grad"
    from mem obtain sm0 where
      "sm = update_module freeze_batchnorm freeze_dropout freeze_expression key sm0"
      by (auto simp: named_modules_update[of "?f m"])
    with update_module_toggles[OF np, where fd=freeze_dropout and fb=freeze_batchnorm
        and fe=freeze_expression and sm=sm0]
    show "(freeze_dropout \<longrightarrow> (\<forall>r. layer sm = Dropout r \<longrightarrow> r = 0)) \<and>
        (freeze_batchnorm \<longrightarrow> (\<forall>a t. layer sm = BatchNorm1d a t \<longrightarrow> \<not> a \<and> \<not> t))"
      by blast
  qed
qed

theorem online_update_toggles_idempotent_witness:
  "named_modules (set_params_online_update (set_params_online_update
      \<lparr>slots = [(''px_r'', Param \<lparr>shape = [1], rows = [[2::int]]\<rparr> True)],
       named_modules = [([], \<lparr>training = False, layer = OtherLayer\<rparr>),
                        (''decoder.drop'', \<lparr>training = False, layer = Dropout (1 / 10)\<rparr>),
                        (''decoder.bn'', \<lparr>training = False, layer = BatchNorm1d True True\<rparr>),
                        (''l_encoder.drop'', \<lparr>training = False, layer = Dropout (1 / 10)\<rparr>)],
       on_cuda = False\<rparr> True True True) True True True) =
     [([], \<lparr>training = False, layer = OtherLayer\<rparr>),
      (''decoder.drop'', \<lparr>training = False, layer = Dropout 0\<rparr>),
      (''decoder.bn'', \<lparr>training = False, layer = BatchNorm1d False False\<rparr>),
      (''l_encoder.drop'', \<lparr>training = False, layer = Dropout (1 / 10)\<rparr>)] \<and>
   forget_hooks (set_params_online_update (set_params_online_update
      \<lparr>slots = [(''px_r'', Param \<lparr>shape = [1], rows = [[2::int]]\<rparr> True)],
       named_modules = [([], \<lparr>training = False, layer = OtherLayer\<rparr>),
                        (''decoder.drop'', \<lparr>training = False, layer = Dropout (1 / 10)\<rparr>),
                        (''decoder.bn'', \<lparr>training = False, layer = BatchNorm1d True True\<rparr>),
                        (''l_encoder.drop'', \<lparr>training = False, layer = Dropout (1 / 10)\<rparr>)],
       on_cuda = False\<rparr> True True True) True True True) =
   forget_hooks (set_params_online_update
      \<lparr>slots = [(''px_r'', Param \<lparr>shape = [1], rows = [[2::int]]\<rparr> True)],
       named_modules = [([], \<lparr>training = False, layer = OtherLayer\<rparr>),
                        (''decoder.drop'', \<lparr>training = False, layer = Dropout (1 / 10)\<rparr>),
                        (''decoder.bn'', \<lparr>training = False, layer = BatchNorm1d True True\<rparr>),
                        (''l_encoder.drop'', \<lparr>training = False, layer = Dropout (1 / 10)\<rparr>)],
       on_cuda = False\<rparr> True True True)"
  using online_update_toggles_idempotent
    [where m = "\<lparr>slots = [(''px_r'', Param \<lparr>shape = [1], rows = [[2::int]]\<rparr> True)],
       named_modules = [([], \<lparr>training = False, layer = OtherLayer\<rparr>),
                        (''decoder.drop'', \<lparr>training = False, layer = Dropout (1 / 10)\<rparr>),
                        (''decoder.bn'', \<lparr>training = False, layer = BatchNorm1d True True\<rparr>),
                        (''l_encoder.drop'', \<lparr>training = False, layer = Dropout (1 / 10)\<rparr>)],
       on_cuda = False\<rparr>"
      and freeze_batchnorm = True and freeze_dropout = True and freeze_expression = True]
  by (simp add: set_params_online_update_def update_module_def split_first_def
      mod_no_hooks_yes_grad_def)

section \<open>Properties of vocabulary extension\<close>

lemma removeAll_commute: "removeAll x (removeAll v xs) = removeAll v (removeAll x xs)"
  by (induction xs) auto

lemma first_seen_removeAll: "first_seen (removeAll v xs) = removeAll v (first_seen xs)"
proof (induction xs rule: first_seen.induct)
  case 1
  then show ?case by simp
next
  case (2 x xs)
  show ?case
  proof (cases "x = v")
    case True
    with 2 show ?thesis by simp
  next
    case False
    with 2 show ?thesis by (simp add: removeAll_commute[of x v])
  qed
qed

lemma filter_removeAll_skip: "\<not> P v \<Longrightarrow> filter P (removeAll v xs) = filter P xs"
  by (induction xs) auto

lemma filter_removeAll_new:
  "filter (\<lambda>x. x \<noteq> v \<and> x \<notin> set cats) xs = filter (\<lambda>x. x \<notin> set cats) (removeAll v xs)"
  by (induction xs) auto

lemma extend_categories_closed:
  "extend_categories cats vs = cats @ filter (\<lambda>v. v \<notin> set cats) (first_seen vs)"
proof (induction vs arbitrary: cats)
  case Nil
  then show ?case by simp
next
  case (Cons v vs)
  show ?case
  proof (cases "v \<in> set cats")
    case True
    then show ?thesis
      by (simp add: Cons.IH first_seen_removeAll filter_removeAll_skip)
  next
    case False
    then show ?thesis
      by (simp add: Cons.IH first_seen_removeAll filter_removeAll_new)
  qed
qed

lemma extend_categories_known: "set vs \<subseteq> set cats \<Longrightarrow> extend_categories cats vs = cats"
  by (induction vs arbitrary: cats) auto

lemma set_extend_categories: "set (extend_categories cats vs) = set cats \<union> set vs"
  by (induction vs arbitrary: cats) auto

lemma extend_categories_idem:
  "extend_categories (extend_categories cats vs) vs = extend_categories cats vs"
  by (rule extend_categories_known) (simp add: set_extend_categories)

lemma prefix_extend_categories: "prefix cats (extend_categories cats vs)"
  by (simp add: extend_categories_closed)

lemma extend_setup_closed:
  "extend_setup sd d2 =
     map (\<lambda>(field, loc, cats).
       (field, loc, cats @ filter (\<lambda>c. c \<notin> set cats) (first_seen (d2 loc)))) sd"
  by (simp add: extend_setup_def extend_categories_closed)

lemma extend_setup_prefix:
  "list_all2 (\<lambda>(field, loc, cats) (field', loc', cats').
      field' = field \<and> loc' = loc \<and> prefix cats cats') sd (extend_setup sd d2)"
  by (induction sd) (auto simp: extend_setup_def prefix_extend_categories)

lemma extend_setup_idem: "extend_setup (extend_setup sd d2) d2 = extend_setup sd d2"
  by (induction sd) (auto simp: extend_setup_def extend_categories_idem)

text \<open>
  C5. Extending a descriptor with a dataset \<open>d2\<close> leaves every field with its original
  ordered category list followed by the categories new in \<open>d2\<close>, in the order in which
  \<open>d2\<close> first shows them; the original list is a prefix of the extended one, so every
  existing category keeps its index; and extending again with \<open>d2\<close> changes nothing. This
  holds for every descriptor and every dataset, in particular when the values of \<open>d2\<close>
  are a superset of those of the dataset the descriptor was built from.
\<close>

theorem vocabulary_extension_append_only:
  "extend_setup sd d2 =
     map (\<lambda>(field, loc, cats).
       (field, loc, cats @ filter (\<lambda>c. c \<notin> set cats) (first_seen (d2 loc)))) sd \<and>
   list_all2 (\<lambda>(field, loc, cats) (field', loc', cats').
      field' = field \<and> loc' = loc \<and> prefix cats cats') sd (extend_setup sd d2) \<and>
   extend_setup (extend_setup sd d2) d2 = extend_setup sd d2"
  using extend_setup_closed extend_setup_prefix extend_setup_idem by blast

theorem vocabulary_extension_append_only_witness:
  "extend_setup [(''batch_indices'', ''batch'', [''b0'', ''b1''])]
     (\<lambda>loc. if loc = ''batch'' then [''b1'', ''b2'', ''b0'', ''b2'', ''b3''] else []) =
     [(''batch_indices'', ''batch'', [''b0'', ''b1'', ''b2'', ''b3''])] \<and>
   extend_setup (extend_setup [(''batch_indices'', ''batch'', [''b0'', ''b1''])]
     (\<lambda>loc. if loc = ''batch'' then [''b1'', ''b2'', ''b0'', ''b2'', ''b3''] else []))
     (\<lambda>loc. if loc = ''batch'' then [''b1'', ''b2'', ''b0'', ''b2'', ''b3''] else []) =
     [(''batch_indices'', ''batch'', [''b0'', ''b1'', ''b2'', ''b3''])]"
  using vocabulary_extension_append_only
    [of "[(''batch_indices'', ''batch'', [''b0'', ''b1''])]"
        "\<lambda>loc. if loc = ''batch'' then [''b1'', ''b2'', ''b0'', ''b2'', ''b3''] else []"]
  by (simp add: extend_setup_def)

section \<open>Properties of the count-data check\<close>

lemma bad_entry_iff: "(lt_zero d \<or> ne_zero (mod_one d)) = (\<not> nonneg_whole d)"
  by (cases d) auto

lemma check_is_counts_flat_iff: "check_is_counts_flat ds = list_all nonneg_whole ds"
  by (induction ds) (simp_all add: bad_entry_iff)

lemma flat_take_scalars:
  "list_all is_scalar xs \<Longrightarrow> concat (map flat (take n xs)) = take n (concat (map flat xs))"
proof (induction xs arbitrary: n)
  case Nil
  then show ?case by simp
next
  case (Cons a xs)
  then obtain x where "a = Scalar x" by (cases a) (auto simp: is_scalar_def)
  with Cons show ?case by (cases n) auto
qed

lemma flat_to_numpy_rows: "map flat (map (\<lambda>r. Array (map Scalar r)) df) = df"
proof -
  have "flat (Array (map Scalar r)) = r" for r :: "'a list"
    by (induction r) simp_all
  then show ?thesis by (induction df) simp_all
qed

text \<open>
  C9, as stated, fails on a dense array of two rows of six entries whose only negative
  value is the twelfth entry: \<^verbatim>\<open>data[:10]\<close> keeps the first ten rows, here both, so the
  check meets the negative entry and returns False, although each of the first ten
  entries is a nonnegative whole number.
\<close>

theorem check_first_ten_entries_counterexample:
  "check_nonnegative_integers
     (NDArray (Array [Array (map (\<lambda>x. Scalar (Num x)) [0, 0, 0, 0, 0, 0]),
                      Array (map (\<lambda>x. Scalar (Num x)) [0, 0, 0, 0, 0, -1])])) = Inr False \<and>
   list_all nonneg_whole
     (take 10 (flat (Array [Array (map (\<lambda>x. Scalar (Num x)) [0, 0, 0, 0, 0, 0]),
                            Array (map (\<lambda>x. Scalar (Num x)) [0, 0, 0, 0, 0, -1])])))"
  by (simp add: check_nonnegative_integers_def check_is_counts_def)

text \<open>
  C9, amended: \<^verbatim>\<open>_check_nonnegative_integers\<close> examines the first at most ten items
  along the first axis of the array it is given (the array itself, the stored values of
  a sparse matrix, the rows of a DataFrame) and every entry inside those items: it
  returns True if and only if each of those entries is a nonnegative whole number. For
  a one-dimensional array, such as the stored values of a sparse matrix, these are the
  first at most ten entries.
\<close>

theorem check_first_ten_items:
  "check_nonnegative_integers (NDArray (Array xs)) =
     Inr (list_all nonneg_whole (concat (map flat (take 10 xs)))) \<and>
   check_nonnegative_integers (SpMatrix (Array xs)) =
     Inr (list_all nonneg_whole (concat (map flat (take 10 xs)))) \<and>
   check_nonnegative_integers (DataFrame df) =
     Inr (list_all nonneg_whole (concat (take 10 df))) \<and>
   (list_all is_scalar xs \<longrightarrow>
      check_nonnegative_integers (NDArray (Array xs)) =
        Inr (list_all nonneg_whole (take 10 (flat (Array xs)))) \<and>
      check_nonnegative_integers (SpMatrix (Array xs)) =
        Inr (list_all nonneg_whole (take 10 (flat (Array xs)))))"
proof -
  have "concat (map flat (take 10 (map (\<lambda>r. Array (map Scalar r)) df))) =
        concat (take 10 (map flat (map (\<lambda>r. Array (map Scalar r)) df)))"
    by (simp only: take_map)
  then have "concat (map flat (take 10 (map (\<lambda>r. Array (map Scalar r)) df))) = concat (take 10 df)"
    by (simp only: flat_to_numpy_rows)
  then show ?thesis
    by (simp add: check_nonnegative_integers_def check_is_counts_def check_is_counts_flat_iff
        to_numpy_def flat_take_scalars)
qed

theorem check_first_ten_items_witness:
  "list_all is_scalar (map (\<lambda>x. Scalar (Num x)) [1, 2, 3, 4, 5, 6, 7, 8, 9, 10, 1 / 2]) \<and>
   check_nonnegative_integers
     (SpMatrix (Array (map (\<lambda>x. Scalar (Num x)) [1, 2, 3, 4, 5, 6, 7, 8, 9, 10, 1 / 2]))) = Inr True \<and>
   check_nonnegative_integers (DataFrame [[Num 1, Num (1 / 2)]]) = Inr False"
  using check_first_ten_items
    [of "map (\<lambda>x. Scalar (Num x)) [1, 2, 3, 4, 5, 6, 7, 8, 9, 10, 1 / 2]" "[[Num 1, Num (1 / 2)]]"]
  by (simp add: is_scalar_def)

section \<open>Properties of the weight reconciliation\<close>

lemma slice_start_neg: "0 < d \<Longrightarrow> slice_start (w + d) (- int d) = w"
  by (simp add: slice_start_def)

lemma map2_append_drop:
  "map2 (@) xs (map (drop w) ys) = map2 (\<lambda>l n. l @ drop w n) xs ys"
  by (simp add: zip_map2 case_prod_unfold)

lemma fix_ten_same:
  "map_of new_sd key = Some new_ten \<Longrightarrow> shape new_ten = shape load_ten \<Longrightarrow>
   fix_ten new_sd key load_ten = Inr load_ten"
  by (simp add: fix_ten_def)

lemma fix_ten_grow:
  assumes new: "map_of new_sd key = Some new_ten"
    and wl: "wf_tensor load_ten" and wn: "wf_tensor new_ten"
    and nz: "shape load_ten \<noteq> []"
    and sh: "shape new_ten = butlast (shape load_ten) @ [last (shape load_ten) + d]"
    and d: "0 < d"
  shows "fix_ten new_sd key load_ten =
           Inr \<lparr>shape = shape new_ten,
                rows = map2 (\<lambda>l n. l @ drop (last (shape load_ten)) n) (rows load_ten) (rows new_ten)\<rparr>"
proof -
  let ?w = "last (shape load_ten)"
  have ne: "shape new_ten \<noteq> shape load_ten"
  proof
    assume "shape new_ten = shape load_ten"
    then have "last (shape new_ten) = ?w" by simp
    with sh d show False by simp
  qed
  have sl: "slice_last new_ten (- (int (?w + d) - int ?w)) =
        Inr \<lparr>shape = butlast (shape load_ten) @ [d], rows = map (drop ?w) (rows new_ten)\<rparr>"
    using sh d slice_start_neg[of d ?w] by (simp add: slice_last_def Let_def)
  show ?thesis
  proof (cases "shape load_ten = [0]")
    case True
    then have shn: "shape new_ten = [d]" using sh by simp
    from wl True obtain r where rl: "rows load_ten = [r]" "r = []"
      by (cases "rows load_ten") (auto simp: wf_tensor_def width_def)
    from wn shn obtain r' where rn: "rows new_ten = [r']"
      by (cases "rows new_ten") (auto simp: wf_tensor_def)
    show ?thesis
      using new ne sl True shn rl rn nz
      by (simp add: fix_ten_def size_last_def cat_last_def)
  next
    case False
    show ?thesis
      using new ne sl False nz sh d
      by (simp add: fix_ten_def size_last_def cat_last_def map2_append_drop)
  qed
qed

lemma grown_columns:
  assumes wl: "wf_tensor load_ten" and wn: "wf_tensor new_ten"
    and nz: "shape load_ten \<noteq> []"
    and sh: "shape new_ten = butlast (shape load_ten) @ [last (shape load_ten) + d]"
  shows "map (take (last (shape load_ten)))
           (map2 (\<lambda>l n. l @ drop (last (shape load_ten)) n) (rows load_ten) (rows new_ten)) = rows load_ten"
    and "map (drop (last (shape load_ten)))
           (map2 (\<lambda>l n. l @ drop (last (shape load_ten)) n) (rows load_ten) (rows new_ten)) =
         map (drop (last (shape load_ten))) (rows new_ten)"
proof -
  let ?w = "last (shape load_ten)"
  have len: "length (rows load_ten) = length (rows new_ten)"
    using wl wn sh by (simp add: wf_tensor_def)
  have rw: "\<forall>r \<in> set (rows load_ten). length r = ?w"
    using wl nz by (simp add: wf_tensor_def width_def list_all_iff)
  have gen: "length xs = length ys \<Longrightarrow> \<forall>r \<in> set xs. length r = w \<Longrightarrow>
      map (take w) (map2 (\<lambda>l n. l @ drop w n) xs ys) = xs \<and>
      map (drop w) (map2 (\<lambda>l n. l @ drop w n) xs ys) = map (drop w) ys"
    for xs ys :: "'a list list" and w
    by (induction xs ys rule: list_induct2) auto
  from gen[OF len rw]
  show "map (take ?w) (map2 (\<lambda>l n. l @ drop ?w n) (rows load_ten) (rows new_ten)) = rows load_ten"
    and "map (drop ?w) (map2 (\<lambda>l n. l @ drop ?w n) (rows load_ten) (rows new_ten)) =
         map (drop ?w) (rows new_ten)"
    by simp_all
qed

lemma fix_ten_shape_only:
  assumes ok: "fix_ten new_sd key load_ten = Inr t"
    and new: "map_of new_sd key = Some new_ten"
    and st: "shape t = shape new_ten"
    and ne: "shape new_ten \<noteq> shape load_ten"
    and nl: "shape load_ten \<noteq> [0]"
  shows "trailing_growth (shape load_ten) (shape new_ten)"
proof -
  from ok new ne have n0: "shape new_ten \<noteq> []" and l0: "shape load_ten \<noteq> []"
    by (auto simp: fix_ten_def size_last_def split: if_splits)
  let ?n = "last (shape new_ten)" and ?l = "last (shape load_ten)"
  let ?s = "slice_start ?n (- (int ?n - int ?l))"
  let ?tail = "\<lparr>shape = butlast (shape new_ten) @ [?n - ?s], rows = map (drop ?s) (rows new_ten)\<rparr>"
  from ok new ne n0 l0 have cat: "cat_last load_ten ?tail = Inr t"
    by (simp add: fix_ten_def size_last_def slice_last_def Let_def)
  have tne: "shape ?tail \<noteq> [0]"
  proof
    assume "shape ?tail = [0]"
    with cat l0 nl have "t = load_ten" by (simp add: cat_last_def)
    with st ne show False by simp
  qed
  from cat l0 nl tne n0 have
    len: "length (shape load_ten) = length (shape new_ten)" and
    bl: "butlast (shape load_ten) = butlast (shape new_ten)" and
    sht: "shape t = butlast (shape load_ten) @ [?l + (?n - ?s)]"
    by (auto simp: cat_last_def split: if_splits)
  from sht st bl have "butlast (shape new_ten) @ [?l + (?n - ?s)] = shape new_ten" by simp
  then have "last (butlast (shape new_ten) @ [?l + (?n - ?s)]) = ?n" by simp
  then have eq: "?l + (?n - ?s) = ?n" by simp
  have "?l < ?n"
  proof (rule ccontr)
    assume "\<not> ?l < ?n"
    then have le: "?n \<le> ?l" by simp
    have "?n \<noteq> ?l"
    proof
      assume "?n = ?l"
      with bl n0 l0 have "shape new_ten = shape load_ten"
        by (metis append_butlast_last_id)
      with ne show False by simp
    qed
    with le have lt: "?n < ?l" by simp
    then have "?s \<le> ?n" by (simp add: slice_start_def)
    with eq lt show False by simp
  qed
  with l0 len bl show ?thesis by (simp add: trailing_growth_def)
qed

lemma fix_state_dict_lookup:
  "fix_state_dict new_sd load_sd = Inr fixed \<Longrightarrow> map_of load_sd key = Some load_ten \<Longrightarrow>
   \<exists>t. fix_ten new_sd key load_ten = Inr t \<and> map_of fixed key = Some t"
proof (induction load_sd arbitrary: fixed)
  case Nil
  then show ?case by simp
next
  case (Cons item items)
  obtain k l where item: "item = (k, l)" by (cases item)
  from Cons.prems(1) item obtain t rest where
    t: "fix_ten new_sd k l = Inr t" and rest: "fix_state_dict new_sd items = Inr rest"
    and fixed: "fixed = (k, t) # rest"
    by (cases "fix_ten new_sd k l"; cases "fix_state_dict new_sd items") auto
  show ?case
  proof (cases "k = key")
    case True
    with Cons.prems(2) item t fixed show ?thesis by simp
  next
    case False
    with Cons.prems(2) item have "map_of items key = Some load_ten" by simp
    from Cons.IH[OF rest this] False fixed show ?thesis by simp
  qed
qed

lemma fix_state_dict_unchanged:
  "list_all (\<lambda>(key, t). \<exists>t'. map_of new_sd key = Some t' \<and> shape t' = shape t) load_sd \<Longrightarrow>
   fix_state_dict new_sd load_sd = Inr load_sd"
  by (induction load_sd) (auto simp: fix_ten_def)

lemma ten_set_ten: "ten (set_ten t s) = t"
  by (cases s) simp_all

lemma ten_update_slot: "ten (update_slot key s) = ten s"
  by (cases s) simp_all

lemma map_of_map_keyed:
  "map_of (map (\<lambda>(k, s). (k, f k s)) xs) key = map_option (f key) (map_of xs key)"
  by (induction xs) auto

lemma state_dict_map_of: "map_of (state_dict m) key = map_option ten (map_of (slots m) key)"
  unfolding state_dict_def by (rule map_of_map_keyed[of "\<lambda>k s. ten s"])

lemma state_dict_tweaks:
  "state_dict (set_params_online_update (eval_mode m) fb fd fe) = state_dict m"
  by (simp add: state_dict_def set_params_online_update_def eval_mode_def case_prod_unfold
      ten_update_slot)

lemma load_state_dict_Inr:
  assumes "load_state_dict net sd = Inr net'"
  shows "net' = net\<lparr>slots := map (\<lambda>(key, s).
            (key, case map_of sd key of None \<Rightarrow> s | Some t \<Rightarrow> set_ten t s)) (slots net)\<rparr>"
    and "\<And>key. key \<in> set (map fst (state_dict net)) \<Longrightarrow> map_of sd key \<noteq> None"
    and "\<And>key. key \<in> set (map fst sd) \<Longrightarrow> map_of (state_dict net) key \<noteq> None"
    and "\<And>key t t'. (key, t) \<in> set (state_dict net) \<Longrightarrow> map_of sd key = Some t' \<Longrightarrow>
          shape t' = shape t"
proof -
  from assms have
    m: "filter (\<lambda>key. map_of sd key = None) (map fst (state_dict net)) = []" and
    u: "filter (\<lambda>key. map_of (state_dict net) key = None) (map fst sd) = []" and
    z: "filter (\<lambda>(key, t). case map_of sd key of None \<Rightarrow> False | Some t' \<Rightarrow> shape t' \<noteq> shape t)
          (state_dict net) = []" and
    r: "net' = net\<lparr>slots := map (\<lambda>(key, s).
            (key, case map_of sd key of None \<Rightarrow> s | Some t \<Rightarrow> set_ten t s)) (slots net)\<rparr>"
    by (auto simp: load_state_dict_def Let_def split: if_splits)
  show "net' = net\<lparr>slots := map (\<lambda>(key, s).
            (key, case map_of sd key of None \<Rightarrow> s | Some t \<Rightarrow> set_ten t s)) (slots net)\<rparr>"
    by (rule r)
  show "map_of sd key \<noteq> None" if "key \<in> set (map fst (state_dict net))" for key
    using m that unfolding filter_empty_conv by blast
  show "map_of (state_dict net) key \<noteq> None" if "key \<in> set (map fst sd)" for key
    using u that unfolding filter_empty_conv by blast
  show "shape t' = shape t" if "(key, t) \<in> set (state_dict net)" "map_of sd key = Some t'" for key t t'
    using z that unfolding filter_empty_conv by fastforce
qed

lemma load_state_dict_lookup:
  assumes "load_state_dict net sd = Inr net'"
  shows "map_of (state_dict net') key =
           (if map_of (state_dict net) key = None then None else map_of sd key)"
proof (cases "map_of (slots net) key")
  case None
  then show ?thesis
    by (simp add: load_state_dict_Inr(1)[OF assms] state_dict_map_of
        map_of_map_keyed[of "\<lambda>key s. case map_of sd key of None \<Rightarrow> s | Some t \<Rightarrow> set_ten t s"])
next
  case (Some s)
  then have "key \<in> set (map fst (state_dict net))"
    by (auto simp: state_dict_def dest!: map_of_SomeD intro!: image_eqI[where x="(key, s)"])
  from load_state_dict_Inr(2)[OF assms this] obtain t where "map_of sd key = Some t" by auto
  with Some show ?thesis
    by (simp add: load_state_dict_Inr(1)[OF assms] state_dict_map_of ten_set_ten
        map_of_map_keyed[of "\<lambda>key s. case map_of sd key of None \<Rightarrow> s | Some t \<Rightarrow> set_ten t s"])
qed

lemma model_tweaking_Inr:
  assumes "model_tweaking model load_sd fd fb fe = Inr model'"
  obtains net fixed net1 where
    "get_module model = Inr net"
    "fix_state_dict (state_dict net) load_sd = Inr fixed"
    "load_state_dict net fixed = Inr net1"
    "model' = (model(''model'' \<mapsto> VModule (set_params_online_update (eval_mode net1) fb fd fe)))
                (''is_trained_'' \<mapsto> VBool False)"
proof -
  from assms obtain net where g: "get_module model = Inr net"
    by (cases "get_module model") (auto simp: model_tweaking_def)
  from assms g obtain fixed where f: "fix_state_dict (state_dict net) load_sd = Inr fixed"
    by (cases "fix_state_dict (state_dict net) load_sd") (auto simp: model_tweaking_def)
  from assms g f obtain net1 where l: "load_state_dict net fixed = Inr net1"
    by (cases "load_state_dict net fixed") (auto simp: model_tweaking_def)
  from assms g f l have
    "model' = (model(''model'' \<mapsto> VModule (set_params_online_update (eval_mode net1) fb fd fe)))
                (''is_trained_'' \<mapsto> VBool False)"
    by (simp add: model_tweaking_def)
  with g f l show ?thesis by (rule that)
qed

lemma model_tweaking_weights:
  assumes tw: "model_tweaking model load_sd fd fb fe = Inr model'"
    and gm: "get_module model = Inr net"
    and L: "map_of load_sd key = Some load_ten"
    and N: "map_of (state_dict net) key = Some new_ten"
  shows "\<exists>net' t. get_module model' = Inr net' \<and> fix_ten (state_dict net) key load_ten = Inr t \<and>
           map_of (state_dict net') key = Some t \<and> shape t = shape new_ten"
proof -
  from tw obtain net0 fixed net1 where
    g: "get_module model = Inr net0" and
    f: "fix_state_dict (state_dict net0) load_sd = Inr fixed" and
    l: "load_state_dict net0 fixed = Inr net1" and
    m: "model' = (model(''model'' \<mapsto> VModule (set_params_online_update (eval_mode net1) fb fd fe)))
                (''is_trained_'' \<mapsto> VBool False)"
    by (rule model_tweaking_Inr)
  from g gm have [simp]: "net0 = net" by simp
  from fix_state_dict_lookup[OF f L] obtain t where
    t: "fix_ten (state_dict net) key load_ten = Inr t" and ft: "map_of fixed key = Some t"
    by auto
  have lk: "map_of (state_dict net1) key = Some t"
    using load_state_dict_lookup[OF l, of key] N ft by simp
  from N have "(key, new_ten) \<in> set (state_dict net)" by (rule map_of_SomeD)
  from load_state_dict_Inr(4)[OF l, simplified, OF this ft] have sh: "shape t = shape new_ten" .
  have "get_module model' = Inr (set_params_online_update (eval_mode net1) fb fd fe)"
    by (simp add: m get_module_def)
  with t lk sh show ?thesis by (auto simp: state_dict_tweaks)
qed

text \<open>
  C1. When the model-tweaking part of \<^verbatim>\<open>load_query_data\<close> returns a model (every model
  that \<^verbatim>\<open>load_query_data\<close> returns is returned by it, see \<open>load_query_data_Inr\<close> below),
  then for every key of the saved state dict: if the fresh tensor has the saved tensor's
  shape, the model holds the saved tensor itself; if the fresh tensor's shape is the
  saved one with the last dimension grown by \<open>d > 0\<close>, the model holds the saved tensor
  concatenated along the last axis with the trailing \<open>d\<close> columns of the fresh tensor, so
  that its first \<open>old_width\<close> columns are the saved tensor's rows and its last \<open>d\<close>
  columns are the fresh tensor's columns from \<open>old_width\<close> on.
\<close>

theorem weight_padding:
  assumes tw: "model_tweaking model load_sd fd fb fe = Inr model'"
    and gm: "get_module model = Inr net"
    and L: "map_of load_sd key = Some load_ten"
    and N: "map_of (state_dict net) key = Some new_ten"
    and wl: "wf_tensor load_ten" and wn: "wf_tensor new_ten"
  shows "\<exists>net'. get_module model' = Inr net' \<and>
     (shape new_ten = shape load_ten \<longrightarrow> map_of (state_dict net') key = Some load_ten) \<and>
     (\<forall>d. 0 < d \<and> shape load_ten \<noteq> [] \<and>
          shape new_ten = butlast (shape load_ten) @ [last (shape load_ten) + d] \<longrightarrow>
        (\<exists>t. map_of (state_dict net') key = Some t \<and> shape t = shape new_ten \<and>
             rows t = map2 (\<lambda>l n. l @ drop (last (shape load_ten)) n) (rows load_ten) (rows new_ten) \<and>
             map (take (last (shape load_ten))) (rows t) = rows load_ten \<and>
             map (drop (last (shape load_ten))) (rows t) =
               map (drop (last (shape load_ten))) (rows new_ten)))"
proof -
  from model_tweaking_weights[OF tw gm L N] obtain net' t where
    g: "get_module model' = Inr net'" and
    t: "fix_ten (state_dict net) key load_ten = Inr t" and
    lk: "map_of (state_dict net') key = Some t"
    by blast
  have same: "map_of (state_dict net') key = Some load_ten" if "shape new_ten = shape load_ten"
    using fix_ten_same[OF N that] t lk by simp
  have grow: "\<exists>t. map_of (state_dict net') key = Some t \<and> shape t = shape new_ten \<and>
             rows t = map2 (\<lambda>l n. l @ drop (last (shape load_ten)) n) (rows load_ten) (rows new_ten) \<and>
             map (take (last (shape load_ten))) (rows t) = rows load_ten \<and>
             map (drop (last (shape load_ten))) (rows t) =
               map (drop (last (shape load_ten))) (rows new_ten)"
    if d: "0 < d" and nz: "shape load_ten \<noteq> []"
      and sh: "shape new_ten = butlast (shape load_ten) @ [last (shape load_ten) + d]" for d
  proof -
    from fix_ten_grow[OF N wl wn nz sh d] t have
      "t = \<lparr>shape = shape new_ten,
            rows = map2 (\<lambda>l n. l @ drop (last (shape load_ten)) n) (rows load_ten) (rows new_ten)\<rparr>"
      by simp
    with lk grown_columns[OF wl wn nz sh] show ?thesis by simp
  qed
  from g same grow show ?thesis by blast
qed

lemma ex_tweak:
  "model_tweaking ex_model ex_saved_sd False False True =
     Inr (ex_model(''model'' \<mapsto> VModule
            \<lparr>slots = [(''w'', Param \<lparr>shape = [2, 3], rows = [[1, 2, 30], [3, 4, 60]]\<rparr> False),
                      (''b'', Buffer \<lparr>shape = [2], rows = [[5, 6]]\<rparr>)],
             named_modules = [([], \<lparr>training = False, layer = OtherLayer\<rparr>)],
             on_cuda = False\<rparr>,
          ''is_trained_'' \<mapsto> VBool False))"
  by (simp add: model_tweaking_def ex_model_def ex_saved_sd_def ex_fresh_net_def get_module_def
      state_dict_def fix_ten_def size_last_def slice_last_def slice_start_def cat_last_def
      load_state_dict_def eval_mode_def set_params_online_update_def update_module_def
      split_first_def mod_no_hooks_yes_grad_def requires_grad_def mod_no_grad_def
      parameters_yes_grad_def)

theorem weight_padding_witness:
  "model_tweaking ex_model ex_saved_sd False False True =
     Inr (ex_model(''model'' \<mapsto> VModule
            \<lparr>slots = [(''w'', Param \<lparr>shape = [2, 3], rows = [[1, 2, 30], [3, 4, 60]]\<rparr> False),
                      (''b'', Buffer \<lparr>shape = [2], rows = [[5, 6]]\<rparr>)],
             named_modules = [([], \<lparr>training = False, layer = OtherLayer\<rparr>)],
             on_cuda = False\<rparr>,
          ''is_trained_'' \<mapsto> VBool False)) \<and>
   get_module ex_model = Inr ex_fresh_net \<and>
   map_of ex_saved_sd ''w'' = Some \<lparr>shape = [2, 2], rows = [[1, 2], [3, 4]]\<rparr> \<and>
   map_of (state_dict ex_fresh_net) ''w'' =
     Some \<lparr>shape = [2, 3], rows = [[10, 20, 30], [40, 50, 60]]\<rparr> \<and>
   wf_tensor \<lparr>shape = [2, 2], rows = [[1, 2], [3, 4 :: int]]\<rparr> \<and>
   wf_tensor \<lparr>shape = [2, 3], rows = [[10, 20, 30], [40, 50, 60 :: int]]\<rparr> \<and>
   (\<exists>net'. get_module (ex_model(''model'' \<mapsto> VModule
            \<lparr>slots = [(''w'', Param \<lparr>shape = [2, 3], rows = [[1, 2, 30], [3, 4, 60]]\<rparr> False),
                      (''b'', Buffer \<lparr>shape = [2], rows = [[5, 6]]\<rparr>)],
             named_modules = [([], \<lparr>training = False, layer = OtherLayer\<rparr>)],
             on_cuda = False\<rparr>,
          ''is_trained_'' \<mapsto> VBool False)) = Inr net' \<and>
      map_of (state_dict net') ''w'' = Some \<lparr>shape = [2, 3], rows = [[1, 2, 30], [3, 4, 60]]\<rparr>)"
proof -
  have gm: "get_module ex_model = Inr ex_fresh_net"
    by (simp add: get_module_def ex_model_def)
  have L: "map_of ex_saved_sd ''w'' = Some \<lparr>shape = [2, 2], rows = [[1, 2], [3, 4]]\<rparr>"
    by (simp add: ex_saved_sd_def)
  have N: "map_of (state_dict ex_fresh_net) ''w'' =
     Some \<lparr>shape = [2, 3], rows = [[10, 20, 30], [40, 50, 60]]\<rparr>"
    by (simp add: state_dict_def ex_fresh_net_def)
  have wl: "wf_tensor \<lparr>shape = [2, 2], rows = [[1, 2], [3, 4 :: int]]\<rparr>"
    by (simp add: wf_tensor_def width_def)
  have wn: "wf_tensor \<lparr>shape = [2, 3], rows = [[10, 20, 30], [40, 50, 60 :: int]]\<rparr>"
    by (simp add: wf_tensor_def width_def)
  from weight_padding[OF ex_tweak gm L N wl wn] obtain net' where
    g: "get_module (ex_model(''model'' \<mapsto> VModule
            \<lparr>slots = [(''w'', Param \<lparr>shape = [2, 3], rows = [[1, 2, 30], [3, 4, 60]]\<rparr> False),
                      (''b'', Buffer \<lparr>shape = [2], rows = [[5, 6]]\<rparr>)],
             named_modules = [([], \<lparr>training = False, layer = OtherLayer\<rparr>)],
             on_cuda = False\<rparr>,
          ''is_trained_'' \<mapsto> VBool False)) = Inr net'" and
    grow: "\<forall>d. 0 < d \<and> [2, 2 :: nat] \<noteq> [] \<and> [2, 3] = butlast [2, 2 :: nat] @ [last [2, 2] + d] \<longrightarrow>
        (\<exists>t. map_of (state_dict net') ''w'' = Some t \<and> shape t = [2, 3] \<and>
             rows t = map2 (\<lambda>l n. l @ drop (last [2, 2 :: nat]) n) [[1, 2], [3, 4]]
                        [[10, 20, 30], [40, 50, 60]] \<and>
             map (take (last [2, 2 :: nat])) (rows t) = [[1, 2], [3, 4]] \<and>
             map (drop (last [2, 2 :: nat])) (rows t) =
               map (drop (last [2, 2 :: nat])) [[10, 20, 30], [40, 50, 60]])"
    by auto
  from grow[rule_format, of 1] obtain t where
    "map_of (state_dict net') ''w'' = Some t" "shape t = [2, 3]" "rows t = [[1, 2, 30], [3, 4, 60]]"
    by auto
  then have "map_of (state_dict net') ''w'' = Some \<lparr>shape = [2, 3], rows = [[1, 2, 30], [3, 4, 60]]\<rparr>"
    by (cases t) simp
  with ex_tweak gm L N wl wn g show ?thesis by blast
qed

text \<open>
  C2, as stated, fails when the saved tensor is a one-dimensional empty tensor: for a
  saved tensor of shape \<open>(0,)\<close> and a fresh tensor of shape \<open>(2, 3)\<close> the shapes differ
  in the number of dimensions, not by a growth of the last one, yet \<^verbatim>\<open>dim_diff\<close> is 3,
  the slice is the whole fresh tensor, \<^verbatim>\<open>torch.cat\<close> skips the empty tensor, and the
  model is returned with the fresh tensor in place.
\<close>

theorem shape_mismatch_counterexample:
  "get_module (ex_model_of
      \<lparr>slots = [(''w'', Param \<lparr>shape = [2, 3], rows = [[1, 2, 3], [4, 5, 6]]\<rparr> True)],
       named_modules = [], on_cuda = False\<rparr>) =
     Inr \<lparr>slots = [(''w'', Param \<lparr>shape = [2, 3], rows = [[1, 2, 3], [4, 5, 6]]\<rparr> True)],
          named_modules = [], on_cuda = False\<rparr> \<and>
   [2, 3] \<noteq> [0 :: nat] \<and>
   \<not> trailing_growth [0] [2, 3] \<and>
   wf_tensor \<lparr>shape = [0], rows = [[] :: int list]\<rparr> \<and>
   model_tweaking (ex_model_of
      \<lparr>slots = [(''w'', Param \<lparr>shape = [2, 3], rows = [[1, 2, 3], [4, 5, 6]]\<rparr> True)],
       named_modules = [], on_cuda = False\<rparr>)
     [(''w'', \<lparr>shape = [0], rows = [[]]\<rparr>)] False False True =
   Inr ((ex_model_of
      \<lparr>slots = [(''w'', Param \<lparr>shape = [2, 3], rows = [[1, 2, 3], [4, 5, 6]]\<rparr> True)],
       named_modules = [], on_cuda = False\<rparr>)
     (''model'' \<mapsto> VModule
        \<lparr>slots = [(''w'', Param \<lparr>shape = [2, 3], rows = [[1, 2, 3], [4, 5, 6]]\<rparr> False)],
         named_modules = [], on_cuda = False\<rparr>,
      ''is_trained_'' \<mapsto> VBool False))"
  by (simp add: model_tweaking_def ex_model_of_def get_module_def trailing_growth_def
      wf_tensor_def width_def
      state_dict_def fix_ten_def size_last_def slice_last_def slice_start_def cat_last_def
      load_state_dict_def eval_mode_def set_params_online_update_def requires_grad_def
      split_first_def mod_no_hooks_yes_grad_def mod_no_grad_def parameters_yes_grad_def)

text \<open>
  C2, amended. If a key's fresh tensor differs in shape from the saved tensor, the
  difference is not a growth of the last dimension alone, and the saved tensor is not
  the one-dimensional empty tensor of shape \<open>(0,)\<close>, then the model-tweaking part of
  \<^verbatim>\<open>load_query_data\<close> raises an error, so no model is returned.
\<close>

theorem shape_mismatch_fatal:
  assumes gm: "get_module model = Inr net"
    and L: "map_of load_sd key = Some load_ten"
    and N: "map_of (state_dict net) key = Some new_ten"
    and ne: "shape new_ten \<noteq> shape load_ten"
    and ng: "\<not> trailing_growth (shape load_ten) (shape new_ten)"
    and nl: "shape load_ten \<noteq> [0]"
  shows "\<exists>e. model_tweaking model load_sd fd fb fe = Inl e"
proof (cases "model_tweaking model load_sd fd fb fe")
  case (Inl e)
  then show ?thesis by blast
next
  case (Inr model')
  from model_tweaking_weights[OF Inr gm L N] obtain t where
    "fix_ten (state_dict net) key load_ten = Inr t" "shape t = shape new_ten"
    by blast
  from fix_ten_shape_only[OF this(1) N this(2) ne nl] ng show ?thesis by simp
qed

theorem shape_mismatch_fatal_witness:
  "get_module (ex_model_of
      \<lparr>slots = [(''w'', Param \<lparr>shape = [3, 2], rows = [[1, 2], [3, 4], [5, 6]]\<rparr> True)],
       named_modules = [], on_cuda = False\<rparr>) =
     Inr \<lparr>slots = [(''w'', Param \<lparr>shape = [3, 2], rows = [[1, 2], [3, 4], [5, 6]]\<rparr> True)],
          named_modules = [], on_cuda = False\<rparr> \<and>
   map_of [(''w'', \<lparr>shape = [2, 2], rows = [[7, 8], [9, 10 :: int]]\<rparr>)] ''w'' =
     Some \<lparr>shape = [2, 2], rows = [[7, 8], [9, 10]]\<rparr> \<and>
   map_of (state_dict
      \<lparr>slots = [(''w'', Param \<lparr>shape = [3, 2], rows = [[1, 2], [3, 4], [5, 6 :: int]]\<rparr> True)],
       named_modules = [], on_cuda = False\<rparr>) ''w'' =
     Some \<lparr>shape = [3, 2], rows = [[1, 2], [3, 4], [5, 6]]\<rparr> \<and>
   [3, 2] \<noteq> [2, 2 :: nat] \<and>
   \<not> trailing_growth [2, 2] [3, 2] \<and>
   [2, 2] \<noteq> [0 :: nat] \<and>
   model_tweaking (ex_model_of
      \<lparr>slots = [(''w'', Param \<lparr>shape = [3, 2], rows = [[1, 2], [3, 4], [5, 6]]\<rparr> True)],
       named_modules = [], on_cuda = False\<rparr>)
     [(''w'', \<lparr>shape = [2, 2], rows = [[7, 8], [9, 10]]\<rparr>)] False False True = Inl RuntimeError"
proof -
  let ?net = "\<lparr>slots = [(''w'', Param \<lparr>shape = [3, 2], rows = [[1, 2], [3, 4], [5, 6 :: int]]\<rparr> True)],
       named_modules = [], on_cuda = False\<rparr>"
  let ?sd = "[(''w'', \<lparr>shape = [2, 2], rows = [[7, 8], [9, 10 :: int]]\<rparr>)]"
  have gm: "get_module (ex_model_of ?net) = Inr ?net"
    by (simp add: get_module_def ex_model_of_def)
  have L: "map_of ?sd ''w'' = Some \<lparr>shape = [2, 2], rows = [[7, 8], [9, 10]]\<rparr>"
    by simp
  have N: "map_of (state_dict ?net) ''w'' = Some \<lparr>shape = [3, 2], rows = [[1, 2], [3, 4], [5, 6]]\<rparr>"
    by (simp add: state_dict_def)
  have ne: "shape \<lparr>shape = [3, 2], rows = [[1, 2], [3, 4], [5, 6 :: int]]\<rparr> \<noteq>
            shape \<lparr>shape = [2, 2], rows = [[7, 8], [9, 10 :: int]]\<rparr>"
    by simp
  have ng: "\<not> trailing_growth (shape \<lparr>shape = [2, 2], rows = [[7, 8], [9, 10 :: int]]\<rparr>)
              (shape \<lparr>shape = [3, 2], rows = [[1, 2], [3, 4], [5, 6 :: int]]\<rparr>)"
    by (simp add: trailing_growth_def)
  have nl: "shape \<lparr>shape = [2, 2], rows = [[7, 8], [9, 10 :: int]]\<rparr> \<noteq> [0]"
    by simp
  from shape_mismatch_fatal[OF gm L N ne ng nl, of False False True]
  have "\<exists>e. model_tweaking (ex_model_of ?net) ?sd False False True = Inl e" .
  moreover have "model_tweaking (ex_model_of ?net) ?sd False False True = Inl RuntimeError"
    by (simp add: model_tweaking_def ex_model_of_def get_module_def
      state_dict_def fix_ten_def size_last_def slice_last_def slice_start_def cat_last_def)
  ultimately show ?thesis using gm L N ne ng nl by simp
qed

section \<open>Properties of load_query_data\<close>

lemma andthen_Inl [simp]: "andthen (es, Inl e) f = (es, Inl e)"
  by (simp add: andthen_def)

lemma andthen_Inr [simp]: "andthen (es, Inr r) f = (es @ fst (f r), snd (f r))"
  by (simp add: andthen_def)

lemma andthen_cases:
  "andthen (es, m) f = (case m of Inl e \<Rightarrow> (es, Inl e) | Inr r \<Rightarrow> (es @ fst (f r), snd (f r)))"
  by (cases m) simp_all

lemma snd_andthen_Inr:
  "snd (andthen m f) = Inr x \<Longrightarrow> \<exists>r. snd m = Inr r \<and> snd (f r) = Inr x"
  by (cases m; cases "snd m") (auto simp: andthen_def)

lemma no_init_params_after_update:
  "''init_params_'' \<notin> set (map fst attr_dict) \<Longrightarrow>
   ''init_params_'' \<notin> set (map fst (AList.update ''scvi_setup_dict_'' uns attr_dict))"
  by (simp add: dom_update)

lemma fst_andthen_event:
  "ev \<in> set (fst (andthen m f)) \<Longrightarrow>
   ev \<in> set (fst m) \<or> (\<exists>r. snd m = Inr r \<and> ev \<in> set (fst (f r)))"
  by (cases m; cases "snd m") (auto simp: andthen_def)

lemma load_query_data_Inr:
  assumes "snd (load_query_data cls transfer_setup env adata use_cuda fd fb fe) = Inr model'"
  shows "\<exists>model load_sd.
           model_tweaking model load_sd fd fb fe = Inr model' \<and>
           model ''use_cuda'' = Some (VBool (use_cuda \<and> cuda_is_available env)) \<and>
           model_params_pt env (if use_cuda \<and> cuda_is_available env then None else Some CPU) = Inr load_sd"
proof (cases "use_cuda \<and> cuda_is_available env")
  case True
  then have eq: "(use_cuda \<and> cuda_is_available env) = True" by simp
  from assms show ?thesis
    unfolding load_query_data_def Let_def eq
    apply (clarsimp dest!: snd_andthen_Inr split: if_splits)
    apply (rule exI, erule conjI, simp)
    done
next
  case False
  then have eq: "(use_cuda \<and> cuda_is_available env) = False" by simp
  from assms show ?thesis
    unfolding load_query_data_def Let_def eq
    apply (clarsimp dest!: snd_andthen_Inr split: if_splits)
    apply (rule exI, erule conjI, simp)
    done
qed

lemma model_tweaking_untrained:
  assumes "model_tweaking model load_sd fd fb fe = Inr model'"
  shows "model' ''is_trained_'' = Some (VBool False) \<and>
         (\<exists>net. model' ''model'' = Some (VModule net) \<and>
            list_all (\<lambda>(key, sm). \<not> training sm) (named_modules net))"
proof -
  from assms obtain net fixed net1 where
    m: "model' = (model(''model'' \<mapsto> VModule (set_params_online_update (eval_mode net1) fb fd fe)))
                (''is_trained_'' \<mapsto> VBool False)"
    by (rule model_tweaking_Inr)
  have "training (update_module fb fd fe key sm) = training sm" for key sm
    by (simp add: update_module_def)
  then have "list_all (\<lambda>(key, sm). \<not> training sm)
      (named_modules (set_params_online_update (eval_mode net1) fb fd fe))"
    by (simp add: set_params_online_update_def eval_mode_def list_all_iff case_prod_unfold)
  with m show ?thesis by simp
qed

lemma load_query_data_no_cuda:
  "\<not> cuda_is_available env \<Longrightarrow>
   load_query_data cls transfer_setup env adata use_cuda fd fb fe =
   load_query_data cls transfer_setup env adata False fd fb fe"
  by (simp add: load_query_data_def Let_def cong del: if_weak_cong)

lemma load_query_data_cpu_events:
  assumes "ev \<in> set (fst (load_query_data cls transfer_setup env adata False fd fb fe))"
  shows "ev \<noteq> ModuleCuda \<and> ev \<noteq> TorchLoad None"
  using assms unfolding load_query_data_def Let_def
  by (auto dest!: fst_andthen_event split: if_splits)

lemma foldl_setattr:
  "distinct (map fst d) \<Longrightarrow>
   foldl (\<lambda>obj (attr, val). obj(attr \<mapsto> val)) m d = m ++ map_of d"
proof (induction d arbitrary: m)
  case Nil
  then show ?case by simp
next
  case (Cons item d)
  obtain a v where item: "item = (a, v)" by (cases item)
  with Cons.prems have na: "map_of d a = None" and dd: "distinct (map fst d)"
    by (auto simp: map_of_eq_None_iff)
  have step: "(m(a \<mapsto> v)) ++ map_of d = m ++ map_of ((a, v) # d)"
  proof (rule ext)
    fix k
    show "((m(a \<mapsto> v)) ++ map_of d) k = (m ++ map_of ((a, v) # d)) k"
      using na by (cases "k = a") (simp_all add: map_add_def split: option.splits)
  qed
  have "foldl (\<lambda>obj (attr, val). obj(attr \<mapsto> val)) m (item # d) =
        foldl (\<lambda>obj (attr, val). obj(attr \<mapsto> val)) (m(a \<mapsto> v)) d"
    by (simp add: item)
  also have "\<dots> = (m(a \<mapsto> v)) ++ map_of d"
    by (rule Cons.IH[OF dd])
  also have "\<dots> = m ++ map_of (item # d)"
    by (simp only: step item)
  finally show ?case .
qed

lemma extend_setup_same:
  "list_all (\<lambda>(field, loc, cats). set (observed loc) \<subseteq> set cats) sd \<Longrightarrow>
   extend_setup sd observed = sd"
  by (induction sd) (auto simp: extend_setup_def extend_categories_known)

lemma load_state_dict_succeeds:
  assumes k1: "list_all (\<lambda>(key, t). \<exists>t'. map_of (state_dict net) key = Some t' \<and> shape t' = shape t) saved"
    and k2: "list_all (\<lambda>(key, t). \<exists>t'. map_of saved key = Some t' \<and> shape t' = shape t) (state_dict net)"
  shows "\<exists>net'. load_state_dict net saved = Inr net'"
proof -
  have m: "filter (\<lambda>key. map_of saved key = None) (map fst (state_dict net)) = []"
    using k2 unfolding filter_empty_conv list_all_iff by fastforce
  have u: "filter (\<lambda>key. map_of (state_dict net) key = None) (map fst saved) = []"
    using k1 unfolding filter_empty_conv list_all_iff by fastforce
  have z: "filter (\<lambda>(key, t). case map_of saved key of None \<Rightarrow> False | Some t' \<Rightarrow> shape t' \<noteq> shape t)
          (state_dict net) = []"
    using k2 unfolding filter_empty_conv list_all_iff by fastforce
  show ?thesis
    using m u z by (simp add: load_state_dict_def Let_def)
qed

lemma model_tweaking_round_trip:
  assumes gm: "get_module model = Inr net"
    and k1: "list_all (\<lambda>(key, t). \<exists>t'. map_of (state_dict net) key = Some t' \<and> shape t' = shape t) saved"
    and k2: "list_all (\<lambda>(key, t). \<exists>t'. map_of saved key = Some t' \<and> shape t' = shape t) (state_dict net)"
  shows "\<exists>net'. model_tweaking model saved fd fb fe =
            Inr (model(''model'' \<mapsto> VModule net', ''is_trained_'' \<mapsto> VBool False)) \<and>
          (\<forall>key. map_of (state_dict net') key = map_of saved key)"
proof -
  have f: "fix_state_dict (state_dict net) saved = Inr saved"
    using k1 by (rule fix_state_dict_unchanged)
  from load_state_dict_succeeds[OF k1 k2] obtain net1 where l: "load_state_dict net saved = Inr net1"
    by blast
  have lk: "map_of (state_dict net1) key = map_of saved key" for key
  proof (cases "map_of (state_dict net) key")
    case None
    have "map_of saved key = None"
    proof (rule ccontr)
      assume "map_of saved key \<noteq> None"
      then obtain t where "map_of saved key = Some t" by auto
      then have "(key, t) \<in> set saved" by (rule map_of_SomeD)
      with k1 None show False by (auto simp: list_all_iff)
    qed
    with None load_state_dict_lookup[OF l, of key] show ?thesis by simp
  next
    case (Some t)
    with load_state_dict_lookup[OF l, of key] show ?thesis by simp
  qed
  have "model_tweaking model saved fd fb fe =
      Inr (model(''model'' \<mapsto> VModule (set_params_online_update (eval_mode net1) fb fd fe),
                 ''is_trained_'' \<mapsto> VBool False))"
    using gm f l by (simp add: model_tweaking_def)
  with lk show ?thesis by (auto simp: state_dict_tweaks)
qed

lemma ex_run:
  "load_query_data ex_cls transfer_anndata_setup ex_env ex_adata True False False True =
     ([PickleLoad, TransferSetup, Construct, TorchLoad (Some CPU)], Inr ex_result)"
  by (simp add: load_query_data_def Let_def ex_env_def ex_attr_dict_def getitem_def
      transfer_anndata_setup_def ex_adata_def extend_setup_def dict_items_def
      non_kwargs_of_def kwargs_of_def is_dict_def call_cls_def ex_cls_def get_module_def
      model_tweaking_def ex_ref_net_def ex_saved_def state_dict_def fix_ten_def
      load_state_dict_def eval_mode_def set_params_online_update_def update_module_def
      split_first_def mod_no_hooks_yes_grad_def requires_grad_def mod_no_grad_def
      parameters_yes_grad_def ex_result_def
      cong del: if_weak_cong)

text \<open>
  C3. When the unpickled \<^verbatim>\<open>attr.pkl\<close> has no key \<^verbatim>\<open>init_params_\<close>, \<^verbatim>\<open>load_query_data\<close>
  raises an error: no model is constructed and \<^verbatim>\<open>torch.load\<close> is never called. The
  error is the ValueError of the check whenever the descriptor entry is present and the
  transfer of the setup succeeds.
\<close>

theorem missing_init_params_fatal:
  assumes "attr_pkl env = Inr attr_dict" and "''init_params_'' \<notin> set (map fst attr_dict)"
  shows "\<exists>evs e. load_query_data cls transfer_setup env adata use_cuda fd fb fe = (evs, Inl e) \<and>
           Construct \<notin> set evs \<and> (\<forall>ml. TorchLoad ml \<notin> set evs) \<and>
           (\<forall>setup_dict adata' uns. map_of attr_dict ''scvi_setup_dict_'' = Some setup_dict \<and>
               transfer_setup setup_dict adata = Inr adata' \<and> uns_scvi adata' = Some uns \<longrightarrow>
               e = ValueError)"
proof (cases "getitem attr_dict ''scvi_setup_dict_''")
  case (Inl e)
  with assms show ?thesis
    by (simp add: load_query_data_def getitem_def split: option.splits)
next
  case sd: (Inr setup_dict)
  show ?thesis
  proof (cases "transfer_setup setup_dict adata")
    case (Inl e)
    with assms sd show ?thesis
      by (simp add: load_query_data_def getitem_def split: option.splits)
  next
    case tr: (Inr adata')
    show ?thesis
    proof (cases "uns_scvi adata'")
      case None
      with assms sd tr show ?thesis
        by (simp add: load_query_data_def getitem_def split: option.splits)
    next
      case (Some uns)
      with assms sd tr no_init_params_after_update[OF assms(2), of uns] show ?thesis
        by (simp add: load_query_data_def getitem_def Let_def split: option.splits)
    qed
  qed
qed

theorem missing_init_params_fatal_witness:
  "attr_pkl (ex_env\<lparr>attr_pkl := Inr [(''scvi_setup_dict_'',
       VSetup [(''batch_indices'', ''batch'', [''b0'', ''b1''])])]\<rparr>) =
     Inr [(''scvi_setup_dict_'', VSetup [(''batch_indices'', ''batch'', [''b0'', ''b1''])])] \<and>
   ''init_params_'' \<notin> set (map fst [(''scvi_setup_dict_'',
       VSetup [(''batch_indices'', ''batch'', [''b0'', ''b1''])] :: (int, nat) pyval)]) \<and>
   load_query_data ex_cls transfer_anndata_setup
     (ex_env\<lparr>attr_pkl := Inr [(''scvi_setup_dict_'',
       VSetup [(''batch_indices'', ''batch'', [''b0'', ''b1''])])]\<rparr>)
     ex_adata True False False True = ([PickleLoad, TransferSetup], Inl ValueError)"
proof -
  let ?d = "[(''scvi_setup_dict_'',
       VSetup [(''batch_indices'', ''batch'', [''b0'', ''b1''])] :: (int, nat) pyval)]"
  let ?env = "ex_env\<lparr>attr_pkl := Inr ?d\<rparr>"
  have pk: "attr_pkl ?env = Inr ?d" by simp
  have nk: "''init_params_'' \<notin> set (map fst ?d)" by simp
  from missing_init_params_fatal[OF pk nk, of ex_cls transfer_anndata_setup ex_adata True False False True]
  obtain evs e where
    r: "load_query_data ex_cls transfer_anndata_setup ?env ex_adata True False False True = (evs, Inl e)"
    and c: "Construct \<notin> set evs" and t: "\<forall>ml. TorchLoad ml \<notin> set evs"
    by blast
  have "load_query_data ex_cls transfer_anndata_setup ?env ex_adata True False False True =
      ([PickleLoad, TransferSetup], Inl ValueError)"
    by (simp add: load_query_data_def Let_def getitem_def transfer_anndata_setup_def
        ex_adata_def extend_setup_def cong del: if_weak_cong)
  with pk nk r show ?thesis by simp
qed

text \<open>
  C10. Every model that \<^verbatim>\<open>load_query_data\<close> returns has \<^verbatim>\<open>is_trained_\<close> equal to False,
  whatever \<^verbatim>\<open>attr.pkl\<close> stored under that name, and its network and all its submodules
  are in evaluation mode.
\<close>

theorem loaded_model_untrained:
  assumes "load_query_data cls transfer_setup env adata use_cuda fd fb fe = (evs, Inr model')"
  shows "model' ''is_trained_'' = Some (VBool False) \<and>
         (\<exists>net. model' ''model'' = Some (VModule net) \<and>
            list_all (\<lambda>(key, sm). \<not> training sm) (named_modules net))"
proof -
  from assms have "snd (load_query_data cls transfer_setup env adata use_cuda fd fb fe) = Inr model'"
    by simp
  from load_query_data_Inr[OF this] obtain model load_sd where
    "model_tweaking model load_sd fd fb fe = Inr model'" by blast
  then show ?thesis by (rule model_tweaking_untrained)
qed

theorem loaded_model_untrained_witness:
  "load_query_data ex_cls transfer_anndata_setup ex_env ex_adata True False False True =
     ([PickleLoad, TransferSetup, Construct, TorchLoad (Some CPU)], Inr ex_result) \<and>
   map_of ex_attr_dict ''is_trained_'' = Some (VBool True) \<and>
   ex_result ''is_trained_'' = Some (VBool False) \<and>
   (\<exists>net. ex_result ''model'' = Some (VModule net) \<and>
      list_all (\<lambda>(key, sm). \<not> training sm) (named_modules net))"
  using loaded_model_untrained[OF ex_run] ex_run by (simp add: ex_attr_dict_def)

text \<open>
  C8. Without a CUDA device, \<^verbatim>\<open>load_query_data\<close> called with \<^verbatim>\<open>use_cuda=True\<close> does
  exactly what it does with \<^verbatim>\<open>use_cuda=False\<close>: the same effects and the same result,
  so it fails only where the CPU run fails. The network is never moved to the GPU,
  \<^verbatim>\<open>torch.load\<close> is only called with the CPU as \<^verbatim>\<open>map_location\<close>, and a returned model
  has \<^verbatim>\<open>use_cuda\<close> equal to False.
\<close>

theorem cuda_unavailable_degrades:
  assumes nc: "\<not> cuda_is_available env"
  shows "load_query_data cls transfer_setup env adata True fd fb fe =
           load_query_data cls transfer_setup env adata False fd fb fe \<and>
         ModuleCuda \<notin> set (fst (load_query_data cls transfer_setup env adata True fd fb fe)) \<and>
         TorchLoad None \<notin> set (fst (load_query_data cls transfer_setup env adata True fd fb fe)) \<and>
         (\<forall>model'. snd (load_query_data cls transfer_setup env adata True fd fb fe) = Inr model' \<longrightarrow>
            model' ''use_cuda'' = Some (VBool False))"
proof -
  have eq: "load_query_data cls transfer_setup env adata True fd fb fe =
           load_query_data cls transfer_setup env adata False fd fb fe"
    using nc by (rule load_query_data_no_cuda)
  have ev: "ModuleCuda \<notin> set (fst (load_query_data cls transfer_setup env adata False fd fb fe))"
    "TorchLoad None \<notin> set (fst (load_query_data cls transfer_setup env adata False fd fb fe))"
    using load_query_data_cpu_events[of _ cls transfer_setup env adata fd fb fe] by blast+
  have uc: "model' ''use_cuda'' = Some (VBool False)"
    if "snd (load_query_data cls transfer_setup env adata False fd fb fe) = Inr model'" for model'
  proof -
    from load_query_data_Inr[OF that] obtain model load_sd where
      tw: "model_tweaking model load_sd fd fb fe = Inr model'" and
      u: "model ''use_cuda'' = Some (VBool False)" by auto
    from tw obtain net1 where
      "model' = (model(''model'' \<mapsto> VModule (set_params_online_update (eval_mode net1) fb fd fe)))
                (''is_trained_'' \<mapsto> VBool False)"
      by (rule model_tweaking_Inr)
    with u show ?thesis by simp
  qed
  from eq ev uc show ?thesis by simp
qed

theorem cuda_unavailable_degrades_witness:
  "\<not> cuda_is_available ex_env \<and>
   load_query_data ex_cls transfer_anndata_setup ex_env ex_adata True False False True =
     load_query_data ex_cls transfer_anndata_setup ex_env ex_adata False False False True \<and>
   load_query_data ex_cls transfer_anndata_setup ex_env ex_adata True False False True =
     ([PickleLoad, TransferSetup, Construct, TorchLoad (Some CPU)], Inr ex_result) \<and>
   ex_result ''use_cuda'' = Some (VBool False)"
proof -
  have nc: "\<not> cuda_is_available ex_env" by (simp add: ex_env_def)
  from cuda_unavailable_degrades[OF nc, of ex_cls transfer_anndata_setup ex_adata False False True]
  show ?thesis using nc ex_run by simp
qed

text \<open>
  C4. Round trip. Let \<^verbatim>\<open>attr.pkl\<close> hold a descriptor and the initialization parameters
  (and no attribute named \<^verbatim>\<open>model\<close>), let the dataset show no category that the
  descriptor does not list, let the class build a model whose network has the saved
  state dict's keys and shapes, and let \<^verbatim>\<open>torch.load\<close> return the saved state dict.
  Then \<^verbatim>\<open>load_query_data\<close> returns a model, the state dict of its network is the saved
  one, tensor for tensor, and its setup descriptor is the saved descriptor. The transfer
  of the setup is the one modelled from the spec.
\<close>

theorem round_trip:
  assumes pk: "attr_pkl env = Inr attr_dict"
    and dk: "distinct (map fst attr_dict)"
    and sdk: "map_of attr_dict ''scvi_setup_dict_'' = Some (VSetup sd)"
    and ipk: "map_of attr_dict ''init_params_'' = Some (VDict init_params)"
    and nomod: "map_of attr_dict ''model'' = None"
    and same: "list_all (\<lambda>(field, loc, cats). set (obs adata loc) \<subseteq> set cats) sd"
    and cons: "call_cls cls (adata\<lparr>uns_scvi := Some (VSetup sd)\<rparr>)
                 (non_kwargs_of init_params) (kwargs_of init_params) = Inr fresh"
    and fm: "fresh ''model'' = Some (VModule net)"
    and ld: "\<forall>ml. model_params_pt env ml = Inr saved"
    and k1: "list_all (\<lambda>(key, t). \<exists>t'. map_of (state_dict net) key = Some t' \<and> shape t' = shape t) saved"
    and k2: "list_all (\<lambda>(key, t). \<exists>t'. map_of saved key = Some t' \<and> shape t' = shape t) (state_dict net)"
  shows "\<exists>evs model net'.
       load_query_data cls transfer_anndata_setup env adata use_cuda fd fb fe = (evs, Inr model) \<and>
       model ''model'' = Some (VModule net') \<and>
       (\<forall>key. map_of (state_dict net') key = map_of saved key) \<and>
       model ''scvi_setup_dict_'' = Some (VSetup sd)"
proof -
  let ?b = "use_cuda \<and> cuda_is_available env"
  let ?attrs = "AList.delete ''init_params_'' attr_dict"
  let ?m0 = "(fresh ++ map_of ?attrs)(''use_cuda'' \<mapsto> VBool ?b)"
  let ?adata = "adata\<lparr>uns_scvi := Some (VSetup sd)\<rparr>"
  have tr: "transfer_anndata_setup (VSetup sd) adata = Inr ?adata"
    by (simp add: transfer_anndata_setup_def extend_setup_same[OF same])
  have up: "AList.update ''scvi_setup_dict_'' (VSetup sd) attr_dict = attr_dict"
    using sdk by (rule update_triv)
  have ink: "''init_params_'' \<in> set (map fst attr_dict)"
    using ipk by (auto dest!: map_of_SomeD intro!: image_eqI[where x="(''init_params_'', VDict init_params)"])
  have fo: "foldl (\<lambda>obj (attr, val). obj(attr \<mapsto> val)) fresh ?attrs = fresh ++ map_of ?attrs"
    using dk by (intro foldl_setattr distinct_delete)
  have m0_model: "?m0 ''model'' = Some (VModule net)"
    using nomod fm by (simp add: map_add_def delete_conv')
  have m0_sd: "?m0 ''scvi_setup_dict_'' = Some (VSetup sd)"
    using sdk by (simp add: map_add_def delete_conv')
  define m1 where "m1 = (if ?b then ?m0(''model'' \<mapsto> VModule (cuda net)) else ?m0)"
  define net1 where "net1 = (if ?b then cuda net else net)"
  have g1: "get_module m1 = Inr net1"
    using m0_model by (simp add: m1_def net1_def get_module_def)
  have sd1: "state_dict net1 = state_dict net"
    by (simp add: net1_def cuda_def state_dict_def)
  have m1_sd: "m1 ''scvi_setup_dict_'' = Some (VSetup sd)"
    using m0_sd by (simp add: m1_def)
  from model_tweaking_round_trip[OF g1, of saved fd fb fe] k1 k2 sd1 obtain net' where
    tw: "model_tweaking m1 saved fd fb fe =
            Inr (m1(''model'' \<mapsto> VModule net', ''is_trained_'' \<mapsto> VBool False))" and
    lk: "\<forall>key. map_of (state_dict net') key = map_of saved key"
    by auto
  have "snd (load_query_data cls transfer_anndata_setup env adata use_cuda fd fb fe) =
          model_tweaking m1 saved fd fb fe"
    using pk sdk tr up ink ipk cons fo ld m0_model
    by (simp add: load_query_data_def Let_def getitem_def dict_items_def get_module_def m1_def
        cong del: if_weak_cong)
  with tw have "snd (load_query_data cls transfer_anndata_setup env adata use_cuda fd fb fe) =
     Inr (m1(''model'' \<mapsto> VModule net', ''is_trained_'' \<mapsto> VBool False))" by simp
  then obtain evs where
    "load_query_data cls transfer_anndata_setup env adata use_cuda fd fb fe =
       (evs, Inr (m1(''model'' \<mapsto> VModule net', ''is_trained_'' \<mapsto> VBool False)))"
    by (cases "load_query_data cls transfer_anndata_setup env adata use_cuda fd fb fe") auto
  with lk m1_sd show ?thesis by auto
qed

theorem round_trip_witness:
  "\<exists>evs model net'.
     load_query_data ex_cls transfer_anndata_setup ex_env ex_adata True False False True =
       (evs, Inr model) \<and>
     model ''model'' = Some (VModule net') \<and>
     map_of (state_dict net') ''w'' = Some \<lparr>shape = [2, 2], rows = [[1, 2], [3, 4]]\<rparr> \<and>
     map_of (state_dict net') ''b'' = Some \<lparr>shape = [2], rows = [[5, 6]]\<rparr> \<and>
     model ''scvi_setup_dict_'' = Some (VSetup [(''batch_indices'', ''batch'', [''b0'', ''b1''])])"
proof -
  let ?sd = "[(''batch_indices'', ''batch'', [''b0'', ''b1''])]"
  let ?ip = "[(''n_latent'', VOther 10), (''kwargs'', VDict [(''dropout_rate'', VOther 1)])]
               :: (string \<times> (int, nat) pyval) list"
  have pk: "attr_pkl ex_env = Inr ex_attr_dict" by (simp add: ex_env_def)
  have dk: "distinct (map fst ex_attr_dict)" by (simp add: ex_attr_dict_def)
  have sdk: "map_of ex_attr_dict ''scvi_setup_dict_'' = Some (VSetup ?sd)"
    by (simp add: ex_attr_dict_def)
  have ipk: "map_of ex_attr_dict ''init_params_'' = Some (VDict ?ip)"
    by (simp add: ex_attr_dict_def)
  have nomod: "map_of ex_attr_dict ''model'' = None" by (simp add: ex_attr_dict_def)
  have same: "list_all (\<lambda>(field, loc, cats). set (obs ex_adata loc) \<subseteq> set cats) ?sd"
    by (auto simp: ex_adata_def)
  have cons: "call_cls ex_cls (ex_adata\<lparr>uns_scvi := Some (VSetup ?sd)\<rparr>)
                 (non_kwargs_of ?ip) (kwargs_of ?ip) = Inr [''model'' \<mapsto> VModule ex_ref_net]"
    by (simp add: call_cls_def non_kwargs_of_def kwargs_of_def is_dict_def ex_cls_def)
  have fm: "[''model'' \<mapsto> VModule ex_ref_net] ''model'' = Some (VModule ex_ref_net :: (int, nat) pyval)"
    by simp
  have ld: "\<forall>ml. model_params_pt ex_env ml = Inr ex_saved" by (simp add: ex_env_def)
  have k1: "list_all (\<lambda>(key, t). \<exists>t'. map_of (state_dict ex_ref_net) key = Some t' \<and>
               shape t' = shape t) ex_saved"
    by (simp add: ex_saved_def ex_ref_net_def state_dict_def)
  have k2: "list_all (\<lambda>(key, t). \<exists>t'. map_of ex_saved key = Some t' \<and> shape t' = shape t)
              (state_dict ex_ref_net)"
    by (simp add: ex_saved_def ex_ref_net_def state_dict_def)
  from round_trip[OF pk dk sdk ipk nomod same cons fm ld k1 k2, of True False False True]
  obtain evs model net' where
    r: "load_query_data ex_cls transfer_anndata_setup ex_env ex_adata True False False True =
       (evs, Inr model)" and
    m: "model ''model'' = Some (VModule net')" and
    w: "\<forall>key. map_of (state_dict net') key = map_of ex_saved key" and
    s: "model ''scvi_setup_dict_'' = Some (VSetup ?sd)"
    by blast
  from w have "map_of (state_dict net') ''w'' = Some \<lparr>shape = [2, 2], rows = [[1, 2], [3, 4]]\<rparr>"
    and "map_of (state_dict net') ''b'' = Some \<lparr>shape = [2], rows = [[5, 6]]\<rparr>"
    by (simp_all add: ex_saved_def)
  with r m s show ?thesis by blast
qed

end
